theory Spec2Isabelle
  imports Main "HOL-Library.Word" "HOL-Library.AList"
begin

section \<open>Documents\<close>

text \<open>
  The agent works on parsed YAML/JSON documents. A JavaScript string is a sequence of
  UTF-16 code units: \<open>length\<close> and \<open>substring\<close> count code units, so a string of the
  model is a list of 16-bit words. \<open>S\<close> turns an ASCII literal into such a string.
\<close>

type_synonym jsstring = "16 word list"

definition S :: "string \<Rightarrow> jsstring" where
  "S s = map (\<lambda>c. of_nat (of_char c)) s"

text \<open>
  The values a document is made of, as \<open>yaml.load\<close> and the Kubernetes client give
  them.

  The agent does no arithmetic on the numbers of a document: it compares them with
  \<open>===\<close>, tests their truthiness and prints them with \<open>String\<close>. Two numbers other than
  \<open>NaN\<close> are \<open>===\<close> exactly when \<open>String\<close> prints them alike (\<open>0\<close> and \<open>-0\<close> are \<open>===\<close> and
  both print \<open>0\<close>), so such a number is given by what \<open>String\<close> prints for it: \<open>3\<close>,
  \<open>0.5\<close>, \<open>1e+21\<close>, \<open>Infinity\<close>. \<open>NaN\<close>, which YAML writes \<open>.nan\<close>, is not \<open>===\<close> to itself.

  An object is the list of its own enumerable properties in enumeration order, each
  key once, and it is a plain object or a \<open>Date\<close>. A \<open>Date\<close> is what \<open>yaml.load\<close> makes of
  a timestamp scalar and what the client makes of a time field; it is given by its time
  value, and it has no own property until the agent writes one to it.

  The documents are those of YAML without explicit tags and of JSON: a document holds no
  function, no typed array and no symbol, no key of a document is \<open>__proto__\<close>, and a
  document is a tree (no object is shared between two places of it).
\<close>

datatype number = NaN | Num jsstring

datatype object_class = Plain | Date int

datatype jsval =
    JUndefined
  | JNull
  | JBool bool
  | JNum number
  | JStr jsstring
  | JArr "jsval list"
  | JObject object_class "(jsstring \<times> jsval) list"

abbreviation JObj :: "(jsstring \<times> jsval) list \<Rightarrow> jsval" where
  "JObj \<equiv> JObject Plain"


type_synonym entries = "(jsstring \<times> jsval) list"

datatype jstype = TUndefined | TObject | TBoolean | TNumber | TString

fun typeof :: "jsval \<Rightarrow> jstype" where
  "typeof JUndefined = TUndefined"
| "typeof JNull = TObject"
| "typeof (JBool b) = TBoolean"
| "typeof (JNum n) = TNumber"
| "typeof (JStr s) = TString"
| "typeof (JArr xs) = TObject"
| "typeof (JObject c kvs) = TObject"

text \<open>Truthiness, as \<open>if (v)\<close>, \<open>!v\<close>, \<open>v && ...\<close> and \<open>v || ...\<close> test it.\<close>

fun truthy :: "jsval \<Rightarrow> bool" where
  "truthy JUndefined = False"
| "truthy JNull = False"
| "truthy (JBool b) = b"
| "truthy (JNum NaN) = False"
| "truthy (JNum (Num r)) = (r \<noteq> S ''0'')"
| "truthy (JStr s) = (s \<noteq> [])"
| "truthy (JArr xs) = True"
| "truthy (JObject c kvs) = True"

fun isArray :: "jsval \<Rightarrow> bool" where
  "isArray (JArr xs) = True"
| "isArray v = False"

text \<open>\<open>v === null || v === undefined\<close>\<close>

fun nullish :: "jsval \<Rightarrow> bool" where
  "nullish JUndefined = True"
| "nullish JNull = True"
| "nullish v = False"

subsection \<open>Decimal rendering\<close>

definition digit :: "nat \<Rightarrow> 16 word" where
  "digit d = of_nat (48 + d)"

function show_nat :: "nat \<Rightarrow> jsstring" where
  "show_nat n = (if n < 10 then [digit n] else show_nat (n div 10) @ [digit (n mod 10)])"
  by pat_completeness auto
termination
  by (relation "measure id") auto

declare show_nat.simps [simp del]

text \<open>\<open>String(v)\<close> of an integer number below \<open>1e21\<close> in size, and of a number.\<close>

definition show_int :: "int \<Rightarrow> jsstring" where
  "show_int i = (if i < 0 then S ''-'' @ show_nat (nat (- i)) else show_nat (nat i))"

fun number_string :: "number \<Rightarrow> jsstring" where
  "number_string NaN = S ''NaN''"
| "number_string (Num r) = r"

subsection \<open>Own properties\<close>

text \<open>
  The own enumerable properties of a value, as \<open>{ ...v }\<close> and \<open>Object.keys(v)\<close> see
  them: the entries of an object, the indices of an array or of a string, nothing for
  the other primitives.
\<close>

definition indexed :: "'a list \<Rightarrow> (jsstring \<times> 'a) list" where
  "indexed xs = zip (map show_nat [0..<length xs]) xs"

fun own_entries :: "jsval \<Rightarrow> entries" where
  "own_entries (JObject c kvs) = kvs"
| "own_entries (JArr xs) = indexed xs"
| "own_entries (JStr s) = indexed (map (\<lambda>c. JStr [c]) s)"
| "own_entries v = []"

definition object_keys :: "jsval \<Rightarrow> jsstring list" where
  "object_keys v = map fst (own_entries v)"

section \<open>Cleaning\<close>

text \<open>
  The keys \<open>cleanForDiff\<close> skips at every object it visits, in the order of the source.
\<close>

definition server_managed :: "jsstring \<Rightarrow> bool" where
  "server_managed k \<longleftrightarrow>
     k = S ''managedFields'' \<or> k = S ''resourceVersion'' \<or> k = S ''uid'' \<or>
     k = S ''creationTimestamp'' \<or> k = S ''generation'' \<or> k = S ''selfLink'' \<or>
     k = S ''status''"

definition strip_kubectl_annotations :: "entries \<Rightarrow> entries" where
  "strip_kubectl_annotations a =
     AList.delete (S ''deployment.kubernetes.io/revision'')
       (AList.delete (S ''kubectl.kubernetes.io/last-applied-configuration'') a)"

text \<open>
  \<open>cleanForDiff\<close> (index.ts, 294-320). The loop over \<open>Object.entries(o)\<close> either skips an
  entry or stores one property in the fresh object \<open>cleaned\<close>, so the result lists, in
  order, what each entry contributes. \<open>cleaned\<close> is a plain object whatever \<open>obj\<close> is,
  so a \<open>Date\<close> of a document comes back as the empty object. An \<open>annotations\<close> value
  that is an object (or an array) is copied one level deep, without recursion.
\<close>

fun cleanForDiff :: "jsval \<Rightarrow> jsval" where
  "cleanForDiff (JArr xs) = JArr (map cleanForDiff xs)"
| "cleanForDiff (JObject c kvs) =
     JObj (concat (map (\<lambda>(k, v).
       if server_managed k then []
       else if k = S ''annotations'' \<and> typeof v = TObject \<and> truthy v then
         (let annotations = strip_kubectl_annotations (own_entries v)
          in if length annotations > 0 then [(k, JObj annotations)] else [])
       else if nullish v then []
       else [(k, cleanForDiff v)]) kvs))"
| "cleanForDiff v = v"

text \<open>What one entry of an object contributes to the cleaned object (the loop body).\<close>

definition clean_entry :: "jsstring \<times> jsval \<Rightarrow> entries" where
  "clean_entry = (\<lambda>(k, v).
       if server_managed k then []
       else if k = S ''annotations'' \<and> typeof v = TObject \<and> truthy v then
         (let annotations = strip_kubectl_annotations (own_entries v)
          in if length annotations > 0 then [(k, JObj annotations)] else [])
       else if nullish v then []
       else [(k, cleanForDiff v)])"

text \<open>
  \<open>cleanManifest\<close> (index.ts, 443-459), on the properties of the resource read from the
  cluster.
\<close>

definition drop_if_empty :: "jsstring \<Rightarrow> entries \<Rightarrow> entries" where
  "drop_if_empty k meta =
     (case map_of meta k of
        Some a \<Rightarrow> if truthy a \<and> length (object_keys a) = 0 then AList.delete k meta else meta
      | None \<Rightarrow> meta)"

definition clean_meta :: "entries \<Rightarrow> entries" where
  "clean_meta m =
     (let meta = AList.delete (S ''managedFields'') m;
          meta = AList.delete (S ''resourceVersion'') meta;
          meta = AList.delete (S ''uid'') meta;
          meta = AList.delete (S ''creationTimestamp'') meta;
          meta = AList.delete (S ''generation'') meta;
          meta = AList.delete (S ''selfLink'') meta;
          meta = drop_if_empty (S ''annotations'') meta;
          meta = drop_if_empty (S ''labels'') meta
      in meta)"

definition cleanManifest :: "entries \<Rightarrow> entries" where
  "cleanManifest obj =
     (let cleaned = AList.delete (S ''status'') obj
      in case map_of cleaned (S ''metadata'') of
           Some m \<Rightarrow>
             if truthy m \<and> typeof m = TObject
             then AList.update (S ''metadata'') (JObj (clean_meta (own_entries m))) cleaned
             else cleaned
         | None \<Rightarrow> cleaned)"


section \<open>The structural diff engine\<close>

subsection \<open>Rendering a value\<close>

fun join :: "jsstring \<Rightarrow> jsstring list \<Rightarrow> jsstring" where
  "join sep [] = []"
| "join sep [x] = x"
| "join sep (x # y # ys) = x @ sep @ join sep (y # ys)"

definition dquote :: jsstring where
  "dquote = [0x22]"

text \<open>
  \<open>formatValue\<close> (index.ts, 323-347). \<open>v.substring(0, 77)\<close> is \<open>take 77\<close> on code units.
  A \<open>Date\<close> goes the way of the objects: one that has no own property is shown as \<open>{}\<close>.
  No value of a document reaches the last line of the function.
\<close>

fun formatValue :: "jsval \<Rightarrow> jsstring" where
  "formatValue JUndefined = S ''null''"
| "formatValue JNull = S ''null''"
| "formatValue (JStr v) =
     (if length v > 80 then dquote @ take 77 v @ S ''...'' @ dquote
      else dquote @ v @ dquote)"
| "formatValue (JBool b) = (if b then S ''true'' else S ''false'')"
| "formatValue (JNum n) = number_string n"
| "formatValue (JArr v) =
     (if length v = 0 then S ''[]''
      else let items = map formatValue v;
               joined = S ''['' @ join (S '', '') items @ S '']''
           in if length joined > 80 then S ''['' @ show_nat (length v) @ S '' items]''
              else joined)"
| "formatValue (JObject c v) =
     (let keys = map fst v
      in if length keys = 0 then S ''{}''
         else if length keys \<le> 3
              \<and> length (S ''{'' @ join (S '', '') (map (\<lambda>(k, x). k @ S '': '' @ formatValue x) v)
                     @ S ''}'') \<le> 80
         then S ''{'' @ join (S '', '') (map (\<lambda>(k, x). k @ S '': '' @ formatValue x) v) @ S ''}''
         else S ''{'' @ show_nat (length keys) @ S '' fields}'')"

subsection \<open>Change lines\<close>

definition arrow :: jsstring where
  "arrow = [0x2192]"

text \<open>The three kinds of line, over values that are rendered already.\<close>

definition added :: "jsstring \<Rightarrow> jsstring \<Rightarrow> jsstring" where
  "added p v = S ''+ '' @ p @ S '': '' @ v"

definition removed :: "jsstring \<Rightarrow> jsstring \<Rightarrow> jsstring" where
  "removed p v = S ''- '' @ p @ S '': '' @ v"

definition modified :: "jsstring \<Rightarrow> jsstring \<Rightarrow> jsstring \<Rightarrow> jsstring" where
  "modified p live desired = S ''~ '' @ p @ S '': '' @ live @ S '' '' @ arrow @ S '' '' @ desired"

definition add_line :: "jsstring \<Rightarrow> jsval \<Rightarrow> jsstring" where
  "add_line p v = added p (formatValue v)"

definition remove_line :: "jsstring \<Rightarrow> jsval \<Rightarrow> jsstring" where
  "remove_line p v = removed p (formatValue v)"

definition modify_line :: "jsstring \<Rightarrow> jsval \<Rightarrow> jsval \<Rightarrow> jsstring" where
  "modify_line p live desired = modified p (formatValue live) (formatValue desired)"

text \<open>The path of an array element and of an object property.\<close>

definition index_path :: "jsstring \<Rightarrow> nat \<Rightarrow> jsstring" where
  "index_path path i = path @ S ''['' @ show_nat i @ S '']''"

definition key_path :: "jsstring \<Rightarrow> jsstring \<Rightarrow> jsstring" where
  "key_path path key = (if path \<noteq> [] then path @ S ''.'' @ key else key)"

text \<open>
  \<open>live === desired\<close>. Primitives are compared by value, and \<open>NaN\<close> is not equal to
  itself. Two objects or two arrays are compared by reference, and the two documents
  \<open>deepDiff\<close> receives never share one: \<open>cleanForDiff\<close> builds every object and array
  afresh, and what it copies unvisited comes from two different parses. (Had the two
  been the same reference, the source would have returned without a line.)
\<close>

fun strict_eq :: "jsval \<Rightarrow> jsval \<Rightarrow> bool" where
  "strict_eq (JArr a) (JArr b) = False"
| "strict_eq (JObject c a) (JObject c' b) = False"
| "strict_eq (JNum NaN) (JNum NaN) = False"
| "strict_eq a b = (a = b)"

text \<open>\<open>obj[key]\<close> on the own properties.\<close>

definition property :: "entries \<Rightarrow> jsstring \<Rightarrow> jsval" where
  "property obj key = (case map_of obj key of Some v \<Rightarrow> v | None \<Rightarrow> JUndefined)"

subsection \<open>Inherited members\<close>

text \<open>
  \<open>key in obj\<close> and \<open>obj[key]\<close> also see what an object inherits. A plain object inherits
  the members of \<open>Object.prototype\<close>, a \<open>Date\<close> those of \<open>Date.prototype\<close> and, behind
  them, those of \<open>Object.prototype\<close>. Each member is a built-in function: the constructor
  \<open>Object\<close> or \<open>Date\<close>, or a method, given by the prototype that holds it and its name
  (\<open>toGMTString\<close> is the function \<open>toUTCString\<close>). The tables are those of Node 20, the
  runtime of the Dockerfile.
\<close>

datatype builtin = Constructor jsstring | Method jsstring jsstring

fun function_name :: "builtin \<Rightarrow> jsstring" where
  "function_name (Constructor c) = c"
| "function_name (Method c n) = n"

text \<open>\<open>String(f)\<close> of a built-in function.\<close>

definition function_string :: "builtin \<Rightarrow> jsstring" where
  "function_string f = S ''function '' @ function_name f @ S ''() { [native code] }''"

definition object_prototype :: "(jsstring \<times> builtin) list" where
  "object_prototype =
     (S ''constructor'', Constructor (S ''Object'')) #
     map (\<lambda>n. (S n, Method (S ''Object'') (S n)))
       [''__defineGetter__'', ''__defineSetter__'', ''hasOwnProperty'', ''__lookupGetter__'',
        ''__lookupSetter__'', ''isPrototypeOf'', ''propertyIsEnumerable'', ''toString'',
        ''valueOf'', ''toLocaleString'']"

definition date_prototype :: "(jsstring \<times> builtin) list" where
  "date_prototype =
     (S ''constructor'', Constructor (S ''Date'')) #
     (S ''toGMTString'', Method (S ''Date'') (S ''toUTCString'')) #
     map (\<lambda>n. (S n, Method (S ''Date'') (S n)))
       [''toString'', ''toDateString'', ''toTimeString'', ''toISOString'', ''toUTCString'',
        ''getDate'', ''setDate'', ''getDay'', ''getFullYear'', ''setFullYear'',
        ''getHours'', ''setHours'', ''getMilliseconds'', ''setMilliseconds'',
        ''getMinutes'', ''setMinutes'', ''getMonth'', ''setMonth'',
        ''getSeconds'', ''setSeconds'', ''getTime'', ''setTime'', ''getTimezoneOffset'',
        ''getUTCDate'', ''setUTCDate'', ''getUTCDay'', ''getUTCFullYear'', ''setUTCFullYear'',
        ''getUTCHours'', ''setUTCHours'', ''getUTCMilliseconds'', ''setUTCMilliseconds'',
        ''getUTCMinutes'', ''setUTCMinutes'', ''getUTCMonth'', ''setUTCMonth'',
        ''getUTCSeconds'', ''setUTCSeconds'', ''valueOf'', ''getYear'', ''setYear'',
        ''toJSON'', ''toLocaleString'', ''toLocaleDateString'', ''toLocaleTimeString'']"

fun prototype_chain :: "object_class \<Rightarrow> (jsstring \<times> builtin) list" where
  "prototype_chain Plain = object_prototype"
| "prototype_chain (Date t) = date_prototype @ object_prototype"

text \<open>
  What \<open>obj[key]\<close> finds in an object: an own property, which is a value of the
  document, or an inherited function. \<open>lookup c obj key\<close> is \<open>None\<close> when \<open>key in obj\<close> is
  false, and \<open>get c obj key\<close> is \<open>obj[key]\<close>, which is \<open>undefined\<close> then.
\<close>

datatype member = Own jsval | Inherited builtin

definition lookup :: "object_class \<Rightarrow> entries \<Rightarrow> jsstring \<Rightarrow> member option" where
  "lookup c obj key =
     (case map_of obj key of
        Some v \<Rightarrow> Some (Own v)
      | None \<Rightarrow> map_option Inherited (map_of (prototype_chain c) key))"

definition get :: "object_class \<Rightarrow> entries \<Rightarrow> jsstring \<Rightarrow> member" where
  "get c obj key = (case lookup c obj key of Some m \<Rightarrow> m | None \<Rightarrow> Own JUndefined)"

text \<open>\<open>formatValue\<close> of what \<open>obj[key]\<close> finds: a function reaches \<open>String(v)\<close>.\<close>

fun format_member :: "member \<Rightarrow> jsstring" where
  "format_member (Own v) = formatValue v"
| "format_member (Inherited f) = function_string f"

text \<open>
  \<open>deepDiff\<close> of \<open>liveObj[key]\<close> and \<open>desiredObj[key]\<close> when one of the two is an inherited
  function. The two are \<open>===\<close> only when they are the same function; if they are not,
  the second test of \<open>deepDiff\<close> holds, \<open>typeof\<close> of a function being \<open>function\<close>, and the
  modify line is pushed.
\<close>

definition diff_inherited :: "member \<Rightarrow> member \<Rightarrow> jsstring \<Rightarrow> jsstring list" where
  "diff_inherited live desired path =
     (if live = desired then []
      else [modified path (format_member live) (format_member desired)])"

subsection \<open>\<open>deepDiff\<close>\<close>

text \<open>\<open>new Set([...a, ...b])\<close>: the keys in order of first occurrence.\<close>

definition set_add :: "'a list \<Rightarrow> 'a \<Rightarrow> 'a list" where
  "set_add acc x = (if x \<in> set acc then acc else acc @ [x])"

definition new_Set :: "'a list \<Rightarrow> 'a list" where
  "new_Set xs = foldl set_add [] xs"

text \<open>
  \<open>deepDiff\<close> (index.ts, 350-404). The lines pushed to \<open>out\<close>, in order; the caller's
  \<open>out\<close> is empty before the call. Past the first two tests both values are objects
  and neither is null: two arrays go to the array diff, two objects that are no arrays
  to the object diff, an array and an object to the last line. In the object diff the
  recursive call is on two values of the documents when both properties are own ones.
\<close>

function deepDiff :: "jsval \<Rightarrow> jsval \<Rightarrow> jsstring \<Rightarrow> jsstring list" where
  "deepDiff live desired path =
     (if strict_eq live desired then []
      else if typeof live \<noteq> typeof desired \<or> live = JNull \<or> desired = JNull \<or>
              typeof live \<noteq> TObject \<or> typeof desired \<noteq> TObject
      then (if \<not> strict_eq live desired then [modify_line path live desired] else [])
      else (case (live, desired) of
          (JArr liveArr, JArr desiredArr) \<Rightarrow>
            concat (map (\<lambda>i.
              let p = index_path path i
              in if i \<ge> length liveArr then [add_line p (desiredArr ! i)]
                 else if i \<ge> length desiredArr then [remove_line p (liveArr ! i)]
                 else deepDiff (liveArr ! i) (desiredArr ! i) p)
              [0 ..< max (length liveArr) (length desiredArr)])
        | (JObject c liveObj, JObject c' desiredObj) \<Rightarrow>
            concat (map (\<lambda>key.
              let p = key_path path key
              in case lookup c liveObj key of
                   None \<Rightarrow> [added p (format_member (get c' desiredObj key))]
                 | Some l \<Rightarrow>
                     (case lookup c' desiredObj key of
                        None \<Rightarrow> [removed p (format_member l)]
                      | Some d \<Rightarrow>
                          (case (l, d) of
                             (Own x, Own y) \<Rightarrow> deepDiff x y p
                           | _ \<Rightarrow> diff_inherited l d p)))
              (new_Set (map fst liveObj @ map fst desiredObj)))
        | _ \<Rightarrow> [modify_line path live desired]))"
  by pat_completeness auto
termination
proof (relation "measure (\<lambda>(live, desired, path). size live)", goal_cases)
  case 1
  show ?case by simp
next
  case (2 live desired path x y liveArr desiredArr i p)
  then have "liveArr ! i \<in> set liveArr" by simp
  then have "size (liveArr ! i) \<le> size_list size liveArr"
    by (rule size_list_estimation') simp
  then show ?case using 2 by auto
next
  case (3 live desired path x y c liveObj c' desiredObj key p l d l' d' v w)
  then have "map_of liveObj key = Some v"
    by (auto simp: lookup_def split: option.splits)
  then have "(key, v) \<in> set liveObj" by (rule map_of_SomeD)
  then have "size v \<le> size_list (size_prod (\<lambda>x. 0) size) liveObj"
    by (rule size_list_estimation') simp
  then show ?case using 3 by auto
qed

declare deepDiff.simps [simp del]

text \<open>
  \<open>summarizeObject\<close> (index.ts, 407-441). \<open>p.split('.').length\<close> is one more than the
  number of dots in \<open>p\<close>.
\<close>

definition split_length :: "jsstring \<Rightarrow> nat" where
  "split_length p = Suc (length (filter (\<lambda>c. c = 0x2E) p))"

fun summarizeObject :: "jsval \<Rightarrow> jsstring \<Rightarrow> jsstring list" where
  "summarizeObject (JArr []) path = []"
| "summarizeObject (JArr (x # xs)) path =
     (if length (x # xs) > 1
      then [S ''+ '' @ path @ S '': ['' @ show_nat (length (x # xs)) @ S '' items]'']
      else [])
     @ (if typeof x = TObject \<and> truthy x then summarizeObject x (path @ S ''[0]'')
        else [S ''+ '' @ path @ S ''[0]: '' @ formatValue x])"
| "summarizeObject (JObject c ob) path =
     concat (map (\<lambda>(k, v).
       let p = key_path path k
       in if nullish v then []
          else if typeof v = TObject \<and> \<not> isArray v \<and> length (object_keys v) > 0
          then (if split_length p < 5 then summarizeObject v p else [add_line p v])
          else [add_line p v]) ob)"
| "summarizeObject obj path = (if nullish obj then [] else [add_line path obj])"


section \<open>The command dispatcher\<close>

subsection \<open>What the agent talks to\<close>

text \<open>
  The Kubernetes client, the YAML codec and the JavaScript runtime are outside the
  repository. They are taken as given functions over a cluster state \<open>'s\<close>. A call that
  throws returns \<open>Inl\<close> with the message of the exception (\<open>None\<close> for \<open>client.read\<close>,
  whose exception the agent discards).
\<close>

datatype reader =
    ReadDeployment | ReadService | ReadConfigMap | ReadSecret | ReadIngress
  | ReadStatefulSet | ReadDaemonSet | ReadCronJob | ReadJob
  | ReadHorizontalPodAutoscaler | ReadPersistentVolumeClaim

record payload =
  namespace :: jsstring
  resources :: "(jsstring \<times> jsstring) list"
  manifests :: "jsstring list"
  dryRun :: jsval
  podName :: jsval
  search :: jsval
  tailLines :: jsval

record command =
  cmd_id :: jsstring
  cmd_type :: jsstring
  cmd_payload :: payload

record 's provider =
  yaml_load :: "jsstring \<Rightarrow> jsstring + jsval"
  yaml_dump :: "jsval \<Rightarrow> jsstring + jsstring"
  type_error :: "jsval \<Rightarrow> jsstring"
  date_string :: "int \<Rightarrow> jsstring"
  client_read :: "'s \<Rightarrow> jsval \<Rightarrow> jsval option"
  client_patch :: "'s \<Rightarrow> jsval \<Rightarrow> bool \<Rightarrow> jsstring + 's"
  client_create :: "'s \<Rightarrow> jsval \<Rightarrow> bool \<Rightarrow> jsstring + 's"
  read_namespaced :: "reader \<Rightarrow> 's \<Rightarrow> jsstring \<Rightarrow> jsstring \<Rightarrow> jsstring + entries"
  list_namespace :: "'s \<Rightarrow> jsstring + jsstring option list"
  list_resources_op :: "payload \<Rightarrow> 's \<Rightarrow> jsstring + jsval"
  get_logs_op :: "payload \<Rightarrow> 's \<Rightarrow> jsstring + jsval"

text \<open>
  \<open>type_error v\<close> is the message of the \<open>TypeError\<close> the runtime raises when a property of
  \<open>v\<close> is read (\<open>v\<close> null or undefined) or written (\<open>v\<close> a primitive; the module is an ES
  module, so strict). \<open>date_string t\<close> is \<open>String\<close> of the \<open>Date\<close> of time value \<open>t\<close>, which
  depends on the time zone of the process. \<open>client_patch\<close> and \<open>client_create\<close> take the
  dry-run flag.
  \<open>list_resources_op\<close> and \<open>get_logs_op\<close> stand for the whole bodies of two commands
  that no property below reads: the first joins eleven concurrent calls, the second
  filters log text.
\<close>

subsection \<open>\<open>get_manifests\<close>\<close>

text \<open>The \<open>switch (kind)\<close> of index.ts, 125-137: eleven cases and no default.\<close>

definition catalog :: "(jsstring \<times> reader) list" where
  "catalog =
     [(S ''Deployment'', ReadDeployment),
      (S ''Service'', ReadService),
      (S ''ConfigMap'', ReadConfigMap),
      (S ''Secret'', ReadSecret),
      (S ''Ingress'', ReadIngress),
      (S ''StatefulSet'', ReadStatefulSet),
      (S ''DaemonSet'', ReadDaemonSet),
      (S ''CronJob'', ReadCronJob),
      (S ''Job'', ReadJob),
      (S ''HorizontalPodAutoscaler'', ReadHorizontalPodAutoscaler),
      (S ''PersistentVolumeClaim'', ReadPersistentVolumeClaim)]"

definition catalog_kinds :: "jsstring list" where
  "catalog_kinds = map fst catalog"

text \<open>
  One turn of the loop over the requested pairs: what it pushes to \<open>docs\<close>. \<open>raw\<close> stays
  \<open>null\<close> when no case matches; a read or a \<open>yaml.dump\<close> that throws is caught and
  logged.
\<close>

definition fetch_manifest ::
  "'s provider \<Rightarrow> 's \<Rightarrow> jsstring \<Rightarrow> jsstring \<times> jsstring \<Rightarrow> jsstring list" where
  "fetch_manifest env s ns req =
     (case req of (kind, name) \<Rightarrow>
        (case map_of catalog kind of
           None \<Rightarrow> []
         | Some r \<Rightarrow>
             (case read_namespaced env r s name ns of
                Inl err \<Rightarrow> []
              | Inr raw \<Rightarrow>
                  (case yaml_dump env (JObj (cleanManifest raw)) of
                     Inl err \<Rightarrow> []
                   | Inr dumped \<Rightarrow> [dumped]))))"

definition get_manifests ::
  "'s provider \<Rightarrow> 's \<Rightarrow> jsstring \<Rightarrow> (jsstring \<times> jsstring) list \<Rightarrow> jsstring" where
  "get_manifests env s ns requested =
     join (S ''---'' @ [0x0A]) (concat (map (fetch_manifest env s ns) requested))"

subsection \<open>\<open>apply_manifest\<close>\<close>

record outcome =
  resource :: jsstring
  success :: bool
  error :: "jsstring option"
  log :: "jsstring option"
  diff :: "jsstring list option"

record 's apply_state =
  cluster :: 's
  results :: "outcome list"
  logs :: "jsstring list"

text \<open>
  \<open>v.kind\<close>, \<open>v.metadata\<close>, \<open>v.name\<close>, \<open>v.namespace\<close> on a value that is neither null nor
  undefined: an own property of an object, \<open>undefined\<close> on everything else (no array, no
  primitive and no prototype has a property of one of these four names).
\<close>

fun read_prop :: "jsval \<Rightarrow> jsstring \<Rightarrow> jsval" where
  "read_prop (JObject c kvs) k = property kvs k"
| "read_prop v k = JUndefined"

text \<open>The first error of a list of results, or all the values.\<close>

fun traverse :: "('e + 'a) list \<Rightarrow> 'e + 'a list" where
  "traverse [] = Inr []"
| "traverse (Inl e # rs) = Inl e"
| "traverse (Inr x # rs) = (case traverse rs of Inl e \<Rightarrow> Inl e | Inr xs \<Rightarrow> Inr (x # xs))"

text \<open>
  A value inside a template literal: the string, or the message of the \<open>TypeError\<close>
  that the conversion throws. An array is joined with commas, a null or undefined
  element giving the empty string. An object is asked for its \<open>toString\<close> and then for
  its \<open>valueOf\<close>: an own property of one of these names is a value of the document,
  which cannot be called. The inherited \<open>toString\<close> gives \<open>[object Object]\<close> for a plain
  object and the date for a \<open>Date\<close>; the inherited \<open>valueOf\<close> gives the object itself for
  a plain object, which is no primitive, and the time value for a \<open>Date\<close>.
\<close>

definition cannot_convert :: jsstring where
  "cannot_convert = S ''Cannot convert object to primitive value''"

fun to_string :: "'s provider \<Rightarrow> jsval \<Rightarrow> jsstring + jsstring" where
  "to_string env JUndefined = Inr (S ''undefined'')"
| "to_string env JNull = Inr (S ''null'')"
| "to_string env (JBool b) = Inr (if b then S ''true'' else S ''false'')"
| "to_string env (JNum n) = Inr (number_string n)"
| "to_string env (JStr s) = Inr s"
| "to_string env (JArr xs) =
     (case traverse (map (\<lambda>x. if nullish x then Inr [] else to_string env x) xs) of
        Inl e \<Rightarrow> Inl e
      | Inr items \<Rightarrow> Inr (join (S '','') items))"
| "to_string env (JObject c kvs) =
     (if S ''toString'' \<notin> set (map fst kvs)
      then (case c of Plain \<Rightarrow> Inr (S ''[object Object]'') | Date t \<Rightarrow> Inr (date_string env t))
      else if S ''valueOf'' \<notin> set (map fst kvs)
      then (case c of Plain \<Rightarrow> Inl cannot_convert | Date t \<Rightarrow> Inr (show_int t))
      else Inl cannot_convert)"

text \<open>
  \<open>name\<close> and \<open>resourceLabel\<close> (index.ts, 163-166), for a document that is not nullish.
  The template literal converts \<open>kind\<close> and then \<open>name\<close>.
\<close>

definition manifest_name :: "jsval \<Rightarrow> jsval" where
  "manifest_name obj =
     (let metadata = read_prop obj (S ''metadata'')
      in if nullish metadata then JUndefined else read_prop metadata (S ''name''))"

definition resourceLabel :: "'s provider \<Rightarrow> jsval \<Rightarrow> jsstring + jsstring" where
  "resourceLabel env obj =
     (case to_string env (read_prop obj (S ''kind'')) of
        Inl e \<Rightarrow> Inl e
      | Inr kind \<Rightarrow>
          (case to_string env (manifest_name obj) of
             Inl e \<Rightarrow> Inl e
           | Inr name \<Rightarrow> Inr (kind @ S ''/'' @ name)))"

text \<open>
  The two \<open>if\<close>s that open the \<open>try\<close> block (index.ts, 169-174). Writing \<open>metadata\<close> to a
  primitive document throws. A named property written to an array is not a property the
  model can hold, and nothing the agent does later reads it (cleaning and diffing go
  through the indices of an array), so such a write leaves the array as it is.
\<close>

definition default_metadata :: "'s provider \<Rightarrow> jsstring \<Rightarrow> jsval \<Rightarrow> jsstring + jsval" where
  "default_metadata env ns obj =
     (case obj of
        JObject c kvs \<Rightarrow>
          (let name = manifest_name obj;
               kvs1 = (if \<not> truthy (property kvs (S ''metadata''))
                          \<or> typeof (property kvs (S ''metadata'')) \<noteq> TObject
                       then AList.update (S ''metadata'')
                              (JObj [(S ''name'', if truthy name then name else JStr (S ''unnamed''))])
                              kvs
                       else kvs);
               metadata = property kvs1 (S ''metadata'')
           in if \<not> truthy (read_prop metadata (S ''namespace''))
              then (case metadata of
                      JObject c' m \<Rightarrow>
                        Inr (JObject c (AList.update (S ''metadata'')
                               (JObject c' (AList.update (S ''namespace'') (JStr ns) m)) kvs1))
                    | _ \<Rightarrow> Inr (JObject c kvs1))
              else Inr (JObject c kvs1))
      | JArr xs \<Rightarrow> Inr (JArr xs)
      | _ \<Rightarrow> Inl (type_error env obj))"

definition check_mark :: jsstring where
  "check_mark = [0x2713]"

definition cross_mark :: jsstring where
  "cross_mark = [0x2717]"

text \<open>The \<open>catch\<close> block of one manifest (index.ts, 227-232).\<close>

definition record_failure :: "jsstring \<Rightarrow> jsstring \<Rightarrow> 's apply_state \<Rightarrow> 's apply_state" where
  "record_failure label msg st =
     st\<lparr>logs := logs st @ [S ''  '' @ cross_mark @ S '' '' @ label @ S '' failed: '' @ msg, []],
        results := results st @
          [\<lparr>resource = label, success = False, error = Some msg,
            log = Some (label @ S '' failed: '' @ msg), diff = None\<rparr>]\<rparr>"

text \<open>
  What follows a successful patch or create (index.ts, 190-208 and 211-226): the action
  line, the indented lines shown in a dry run, the outcome, an empty line.
\<close>

definition record_success ::
  "jsstring \<Rightarrow> jsstring \<Rightarrow> jsstring list \<Rightarrow> jsstring list \<Rightarrow> 's \<Rightarrow> 's apply_state
     \<Rightarrow> 's apply_state" where
  "record_success label action shown diffLines s' st =
     st\<lparr>cluster := s',
        logs := logs st @ [S ''  '' @ check_mark @ S '' '' @ action] @ shown @ [[]],
        results := results st @
          [\<lparr>resource = label, success = True, error = None,
            log = Some action, diff = Some diffLines\<rparr>]\<rparr>"

definition indent :: "jsstring \<Rightarrow> jsstring" where
  "indent line = S ''      '' @ line"

text \<open>
  Steps 2 to 5 for one defaulted document (index.ts, 176-226): read the live state, patch
  or create, and in a dry run diff or summarise. An exception of \<open>patch\<close> or \<open>create\<close>
  lands in the \<open>catch\<close> block.
\<close>

definition reconcile ::
  "'s provider \<Rightarrow> bool \<Rightarrow> jsstring \<Rightarrow> jsval \<Rightarrow> 's apply_state \<Rightarrow> 's apply_state" where
  "reconcile env dry label obj st =
     (let liveObj = (case client_read env (cluster st) obj of
                       Some live \<Rightarrow> live
                     | None \<Rightarrow> JNull)
      in if truthy liveObj
         then (case client_patch env (cluster st) obj dry of
                 Inl msg \<Rightarrow> record_failure label msg st
               | Inr s' \<Rightarrow>
                   (let action = (if dry then label @ S '' validated (would update)''
                                  else label @ S '' configured'');
                        diffLines = (if dry then deepDiff (cleanForDiff liveObj) (cleanForDiff obj) []
                                     else []);
                        shown = (if dry
                                 then (if length diffLines = 0 then [S ''      (no changes)'']
                                       else map indent diffLines)
                                 else [])
                    in record_success label action shown diffLines s' st))
         else (case client_create env (cluster st) obj dry of
                 Inl msg \<Rightarrow> record_failure label msg st
               | Inr s' \<Rightarrow>
                   (let action = (if dry then label @ S '' validated (would create)''
                                  else label @ S '' created'');
                        diffLines = (if dry then summarizeObject (cleanForDiff obj) [] else []);
                        shown = (if dry then map indent diffLines else [])
                    in record_success label action shown diffLines s' st)))"

text \<open>
  One turn of the loop over the manifests (index.ts, 161-233). \<open>yaml.load\<close>, the reads
  of \<open>obj.kind\<close> and \<open>obj.metadata\<close> and the template literal of the label stand before
  the \<open>try\<close>: what they throw leaves the loop. The first component is that exception,
  if any.
\<close>

definition apply_one ::
  "'s provider \<Rightarrow> jsstring \<Rightarrow> bool \<Rightarrow> jsstring \<Rightarrow> 's apply_state
     \<Rightarrow> jsstring option \<times> 's apply_state" where
  "apply_one env ns dry manifestStr st =
     (case yaml_load env manifestStr of
        Inl msg \<Rightarrow> (Some msg, st)
      | Inr obj \<Rightarrow>
          if nullish obj then (Some (type_error env obj), st)
          else (case resourceLabel env obj of
                  Inl msg \<Rightarrow> (Some msg, st)
                | Inr label \<Rightarrow>
                    (case default_metadata env ns obj of
                       Inl msg \<Rightarrow> (None, record_failure label msg st)
                     | Inr defaulted \<Rightarrow> (None, reconcile env dry label defaulted st))))"

fun apply_loop ::
  "'s provider \<Rightarrow> jsstring \<Rightarrow> bool \<Rightarrow> jsstring list \<Rightarrow> 's apply_state
     \<Rightarrow> jsstring option \<times> 's apply_state" where
  "apply_loop env ns dry [] st = (None, st)"
| "apply_loop env ns dry (m # ms) st =
     (case apply_one env ns dry m st of
        (Some msg, st') \<Rightarrow> (Some msg, st')
      | (None, st') \<Rightarrow> apply_loop env ns dry ms st')"

text \<open>What a command hands back: \<open>{ result?, error? }\<close>.\<close>

datatype result =
    Namespaces "jsstring list"
  | Text jsstring
  | Applied "outcome list" jsstring bool
  | Other jsval

datatype returned = Returned (ret_result: "result option") (ret_error: "jsstring option")

text \<open>
  The \<open>apply_manifest\<close> case (index.ts, 150-240): the exception that left the loop, or the
  batch result, and the cluster as the calls made so far have left it.
\<close>

definition apply_manifest ::
  "'s provider \<Rightarrow> jsstring \<Rightarrow> jsstring list \<Rightarrow> bool \<Rightarrow> 's \<Rightarrow> (jsstring + returned) \<times> 's" where
  "apply_manifest env ns ms dry s =
     (let mode = (if dry then S ''Dry run'' else S ''Deploying'');
          st0 = \<lparr>cluster = s, results = [],
                 logs = [mode @ S '': '' @ show_nat (length ms) @ S '' resource(s) to namespace ''
                           @ dquote @ ns @ dquote, []]\<rparr>
      in case apply_loop env ns dry ms st0 of
           (Some msg, st) \<Rightarrow> (Inl msg, cluster st)
         | (None, st) \<Rightarrow>
             (let succeeded = length (filter success (results st));
                  failed = length (filter (\<lambda>r. \<not> success r) (results st));
                  lines = logs st @ [S ''Done: '' @ show_nat succeeded @ S '' passed, ''
                                       @ show_nat failed @ S '' failed'']
              in (Inr (Returned (Some (Applied (results st) (join [0x0A] lines) dry)) None),
                  cluster st)))"

subsection \<open>\<open>executeCommand\<close>\<close>

text \<open>
  \<open>executeCommand\<close> (index.ts, 82-291): \<open>Inl\<close> when the promise rejects, \<open>Inr\<close> with what it
  resolves to.
\<close>

definition executeCommand ::
  "'s provider \<Rightarrow> command \<Rightarrow> 's \<Rightarrow> (jsstring + returned) \<times> 's" where
  "executeCommand env cmd s =
     (let p = cmd_payload cmd
      in if cmd_type cmd = S ''list_namespaces'' then
           (case list_namespace env s of
              Inl msg \<Rightarrow> (Inl msg, s)
            | Inr items \<Rightarrow>
                (Inr (Returned (Some (Namespaces
                   (filter (\<lambda>n. n \<noteq> []) (map (\<lambda>i. case i of Some n \<Rightarrow> n | None \<Rightarrow> []) items))))
                   None), s))
         else if cmd_type cmd = S ''list_resources'' then
           (case list_resources_op env p s of
              Inl msg \<Rightarrow> (Inl msg, s)
            | Inr r \<Rightarrow> (Inr (Returned (Some (Other r)) None), s))
         else if cmd_type cmd = S ''get_manifests'' then
           (Inr (Returned (Some (Text (get_manifests env s (namespace p) (resources p)))) None), s)
         else if cmd_type cmd = S ''apply_manifest'' then
           apply_manifest env (namespace p) (manifests p) (dryRun p = JBool True) s
         else if cmd_type cmd = S ''get_logs'' then
           (case get_logs_op env p s of
              Inl msg \<Rightarrow> (Inl msg, s)
            | Inr r \<Rightarrow> (Inr (Returned (Some (Other r)) None), s))
         else (Inr (Returned None (Some (S ''Unknown command type: '' @ cmd_type cmd))), s))"

section \<open>The control loop\<close>

text \<open>
  What \<open>fetch\<close> gives \<open>poll\<close> (index.ts, 57-69): it rejects, or it resolves to a response
  with a status whose body \<open>res.json()\<close> reads, or fails to read, as \<open>data.command || null\<close>.
\<close>

record response =
  res_status :: nat
  res_json :: "jsstring + command option"

definition ok :: "response \<Rightarrow> bool" where
  "ok res \<longleftrightarrow> 200 \<le> res_status res \<and> res_status res \<le> 299"

definition poll :: "jsstring + response \<Rightarrow> jsstring + command option" where
  "poll fetched =
     (case fetched of
        Inl msg \<Rightarrow> Inl msg
      | Inr res \<Rightarrow> if \<not> ok res then Inr None else res_json res)"

text \<open>
  \<open>submitResult\<close> (index.ts, 71-80) posts one result and ignores the response; its
  \<open>fetch\<close> may reject. A \<open>Post\<close> is one call of \<open>submitResult\<close>, a \<open>Delay\<close> one
  \<open>setTimeout\<close> wait.
\<close>

datatype status = Completed | Failed

record submission =
  commandId :: jsstring
  sub_status :: status
  sub_result :: "result option"
  sub_error :: "jsstring option"

datatype event = Post submission | Delay nat

definition submit_failed :: "command \<Rightarrow> jsstring \<Rightarrow> submission" where
  "submit_failed cmd msg =
     \<lparr>commandId = cmd_id cmd, sub_status = Failed, sub_result = None, sub_error = Some msg\<rparr>"

definition submit_completed :: "command \<Rightarrow> result option \<Rightarrow> submission" where
  "submit_completed cmd r =
     \<lparr>commandId = cmd_id cmd, sub_status = Completed, sub_result = r, sub_error = None\<rparr>"

text \<open>\<open>if (error) ... else ...\<close> of index.ts, 483-487: an empty \<open>error\<close> is falsy.\<close>

definition first_submission :: "command \<Rightarrow> returned \<Rightarrow> submission" where
  "first_submission cmd ret =
     (case ret_error ret of
        Some e \<Rightarrow> if e \<noteq> [] then submit_failed cmd e else submit_completed cmd (ret_result ret)
      | None \<Rightarrow> submit_completed cmd (ret_result ret))"

text \<open>
  One turn of the long-poll loop of \<open>main\<close> (index.ts, 476-501). \<open>fetched\<close> is what the
  poll request gives; \<open>r1\<close> and \<open>r2\<close> are what happens to the first and to the second
  call of \<open>submitResult\<close> in this turn (\<open>Some msg\<close>: its \<open>fetch\<close> rejects with \<open>msg\<close>). The
  turn returns its posts and waits, in order, and the cluster. What the agent writes to
  the console is left out, and so are the registration that comes before the loop and
  the agent id it stores.
\<close>

definition main_iteration ::
  "'s provider \<Rightarrow> jsstring + response \<Rightarrow> jsstring option \<Rightarrow> jsstring option \<Rightarrow> 's
     \<Rightarrow> event list \<times> 's" where
  "main_iteration env fetched r1 r2 s =
     (case poll fetched of
        Inl msg \<Rightarrow> ([Delay 3000], s)
      | Inr None \<Rightarrow> ([], s)
      | Inr (Some cmd) \<Rightarrow>
          (case executeCommand env cmd s of
             (Inr ret, s') \<Rightarrow>
               (case r1 of
                  None \<Rightarrow> ([Post (first_submission cmd ret)], s')
                | Some msg \<Rightarrow>
                    (case r2 of
                       None \<Rightarrow> ([Post (first_submission cmd ret), Post (submit_failed cmd msg)], s')
                     | Some msg2 \<Rightarrow>
                         ([Post (first_submission cmd ret), Post (submit_failed cmd msg),
                           Delay 3000], s')))
           | (Inl msg, s') \<Rightarrow>
               (case r1 of
                  None \<Rightarrow> ([Post (submit_failed cmd msg)], s')
                | Some msg1 \<Rightarrow> ([Post (submit_failed cmd msg), Delay 3000], s'))))"

text \<open>
  The loop runs its turns one after the other for as long as \<open>running\<close> is true at the
  head of the loop. A run of the agent up to its shutdown is the list of what the
  control plane and the transport do in each of its turns.
\<close>

record turn =
  turn_poll :: "jsstring + response"
  turn_post1 :: "jsstring option"
  turn_post2 :: "jsstring option"

fun main_loop :: "'s provider \<Rightarrow> turn list \<Rightarrow> 's \<Rightarrow> event list \<times> 's" where
  "main_loop env [] s = ([], s)"
| "main_loop env (t # ts) s =
     (case main_iteration env (turn_poll t) (turn_post1 t) (turn_post2 t) s of
        (es, s') \<Rightarrow> (case main_loop env ts s' of (es', s'') \<Rightarrow> (es @ es', s'')))"

section \<open>Notions and sample data for the properties\<close>

subsection \<open>Notions\<close>

text \<open>
  An entry of the metadata is settled when \<open>cleanManifest\<close> would not drop it: it is
  missing, or falsy, or it has a key.
\<close>

definition settled :: "jsstring \<Rightarrow> entries \<Rightarrow> bool" where
  "settled k meta \<longleftrightarrow>
     (case map_of meta k of
        Some a \<Rightarrow> \<not> (truthy a \<and> length (object_keys a) = 0)
      | None \<Rightarrow> True)"










text \<open>
  A primitive is a value that is neither an array nor an object: undefined, null, a
  boolean, a number or a string. A timestamp is none: it is parsed to a \<open>Date\<close>.
\<close>

definition primitive :: "jsval \<Rightarrow> bool" where
  "primitive v \<longleftrightarrow> (case v of JArr xs \<Rightarrow> False | JObject c kvs \<Rightarrow> False | _ \<Rightarrow> True)"









text \<open>The results posted in one turn of the control loop, in order.\<close>

fun posts :: "event list \<Rightarrow> submission list" where
  "posts [] = []"
| "posts (Post x # es) = x # posts es"
| "posts (Delay n # es) = posts es"

text \<open>
  A manifest text is processable when it parses to a document that is neither null nor
  undefined and whose label can be built: its turn of the loop reaches the \<open>try\<close>
  block.
\<close>

definition processable :: "'s provider \<Rightarrow> jsstring \<Rightarrow> bool" where
  "processable env m \<longleftrightarrow>
     (case yaml_load env m of
        Inl e \<Rightarrow> False
      | Inr doc \<Rightarrow>
          \<not> nullish doc \<and> (case resourceLabel env doc of Inl e \<Rightarrow> False | Inr label \<Rightarrow> True))"

text \<open>
  The exception, if any, that the \<open>try\<close> block of a manifest text throws in a given
  state of the cluster: the write of the metadata, or the patch of a resource that is
  there, or the creation of one that is not.
\<close>

definition item_error :: "'s provider \<Rightarrow> jsstring \<Rightarrow> bool \<Rightarrow> jsstring \<Rightarrow> 's \<Rightarrow> jsstring option" where
  "item_error env ns dry m s =
     (case yaml_load env m of
        Inl e \<Rightarrow> None
      | Inr doc \<Rightarrow>
          (case default_metadata env ns doc of
             Inl msg \<Rightarrow> Some msg
           | Inr d \<Rightarrow>
               (if truthy (case client_read env s d of Some live \<Rightarrow> live | None \<Rightarrow> JNull)
                then (case client_patch env s d dry of Inl msg \<Rightarrow> Some msg | Inr s' \<Rightarrow> None)
                else (case client_create env s d dry of Inl msg \<Rightarrow> Some msg | Inr s' \<Rightarrow> None))))"

text \<open>
  An outcome is the outcome of a manifest text when it carries the label of the
  document and is either a success, with one of the four actions and the lines of a
  diff, or a failure, with a message and the failure line made of the label and the
  message.
\<close>

definition actions :: "jsstring list" where
  "actions =
     [S '' validated (would update)'', S '' configured'',
      S '' validated (would create)'', S '' created'']"

definition outcome_of :: "'s provider \<Rightarrow> jsstring \<Rightarrow> outcome \<Rightarrow> bool" where
  "outcome_of env m r \<longleftrightarrow>
     (case yaml_load env m of
        Inl e \<Rightarrow> False
      | Inr doc \<Rightarrow>
          (case resourceLabel env doc of
             Inl e \<Rightarrow> False
           | Inr label \<Rightarrow>
               resource r = label \<and>
               (case error r of
                  None \<Rightarrow>
                    success r \<and> log r \<in> set (map (\<lambda>a. Some (label @ a)) actions)
                    \<and> diff r \<noteq> None
                | Some msg \<Rightarrow>
                    \<not> success r \<and> log r = Some (label @ S '' failed: '' @ msg) \<and> diff r = None)))"

subsection \<open>A sample provider\<close>

text \<open>
  A provider to run the agent on: it parses three manifest texts and rejects every
  other text, keeps the created resources in a list, finds a resource that is in the
  list, and refuses to create a resource that has no name.
\<close>

definition named_manifest :: jsval where
  "named_manifest =
     JObj [(S ''kind'', JStr (S ''ConfigMap'')),
           (S ''metadata'', JObj [(S ''name'', JStr (S ''cfg''))])]"

definition nameless_manifest :: jsval where
  "nameless_manifest =
     JObj [(S ''kind'', JStr (S ''ConfigMap'')),
           (S ''metadata'', JObj [(S ''labels'', JObj [(S ''app'', JStr (S ''web''))])])]"

definition sample_yaml_load :: "jsstring \<Rightarrow> jsstring + jsval" where
  "sample_yaml_load text =
     (if text = S ''{kind: ConfigMap, metadata: {name: cfg}}'' then Inr named_manifest
      else if text = S ''{kind: ConfigMap, metadata: {labels: {app: web}}}''
      then Inr nameless_manifest
      else if text = S ''kind: ConfigMap'' then Inr (JObj [(S ''kind'', JStr (S ''ConfigMap''))])
      else Inl (S ''unexpected end of the stream within a flow collection''))"

definition sample_provider :: "jsval list provider" where
  "sample_provider =
     \<lparr>yaml_load = sample_yaml_load,
      yaml_dump = (\<lambda>v. Inr (S ''kind: ConfigMap'' @ [0x0A])),
      type_error = (\<lambda>v. S ''Cannot read properties''),
      date_string = (\<lambda>t. S ''Thu Jan 01 1970 00:00:00 GMT+0000 (Coordinated Universal Time)''),
      client_read = (\<lambda>s v. if v \<in> set s then Some v else None),
      client_patch = (\<lambda>s v dry. Inr s),
      client_create = (\<lambda>s v dry. Inr (if dry then s else s @ [v])),
      read_namespaced = (\<lambda>r s name ns. Inr [(S ''kind'', JStr (S ''ConfigMap''))]),
      list_namespace = (\<lambda>s. Inr []),
      list_resources_op = (\<lambda>p s. Inr (JArr [])),
      get_logs_op = (\<lambda>p s. Inr (JObj []))\<rparr>"

text \<open>The same provider with a cluster that refuses to create a resource without a name.\<close>

definition strict_provider :: "jsval list provider" where
  "strict_provider =
     sample_provider
       \<lparr>client_create := (\<lambda>s v dry.
           if nullish (manifest_name v) then Inl (S ''resource name may not be empty'')
           else Inr (if dry then s else s @ [v]))\<rparr>"

text \<open>
  A command of a given type for the namespace \<open>prod\<close>, the poll response that delivers
  a command, a batch of three manifest texts whose second one does not parse, and a
  batch of three texts that parse, the second one giving a resource without a name.
\<close>

definition sample_command :: "jsstring \<Rightarrow> (jsstring \<times> jsstring) list \<Rightarrow> jsstring list \<Rightarrow> command" where
  "sample_command type rs ms =
     \<lparr>cmd_id = S ''c-1'', cmd_type = type,
      cmd_payload = \<lparr>namespace = S ''prod'', resources = rs, manifests = ms,
                     dryRun = JUndefined, podName = JUndefined, search = JUndefined,
                     tailLines = JUndefined\<rparr>\<rparr>"

definition delivers :: "command \<Rightarrow> jsstring + response" where
  "delivers cmd = Inr \<lparr>res_status = 200, res_json = Inr (Some cmd)\<rparr>"

definition batch :: "jsstring list" where
  "batch =
     [S ''{kind: ConfigMap, metadata: {name: cfg}}'',
      S ''{kind: ConfigMap'',
      S ''{kind: ConfigMap, metadata: {labels: {app: web}}}'']"

definition parsed_batch :: "jsstring list" where
  "parsed_batch =
     [S ''{kind: ConfigMap, metadata: {name: cfg}}'',
      S ''{kind: ConfigMap, metadata: {labels: {app: web}}}'',
      S ''kind: ConfigMap'']"

text \<open>
  What the second batch is expected to give on the strict provider: the outcomes, the
  log, the result that is posted, and the result that is posted after it when the
  transport has rejected the first post with \<open>fetch failed\<close>.
\<close>

definition parsed_batch_outcomes :: "outcome list" where
  "parsed_batch_outcomes =
     [\<lparr>resource = S ''ConfigMap/cfg'', success = True, error = None,
       log = Some (S ''ConfigMap/cfg created''), diff = Some []\<rparr>,
      \<lparr>resource = S ''ConfigMap/undefined'', success = False,
       error = Some (S ''resource name may not be empty''),
       log = Some (S ''ConfigMap/undefined failed: resource name may not be empty''),
       diff = None\<rparr>,
      \<lparr>resource = S ''ConfigMap/undefined'', success = True, error = None,
       log = Some (S ''ConfigMap/undefined created''), diff = Some []\<rparr>]"

definition parsed_batch_log :: jsstring where
  "parsed_batch_log =
     join [0x0A]
       [S ''Deploying: 3 resource(s) to namespace '' @ dquote @ S ''prod'' @ dquote,
        [],
        S ''  '' @ check_mark @ S '' ConfigMap/cfg created'',
        [],
        S ''  '' @ cross_mark @ S '' ConfigMap/undefined failed: resource name may not be empty'',
        [],
        S ''  '' @ check_mark @ S '' ConfigMap/undefined created'',
        [],
        S ''Done: 2 passed, 1 failed'']"

definition parsed_batch_post :: submission where
  "parsed_batch_post =
     \<lparr>commandId = S ''c-1'', sub_status = Completed,
      sub_result = Some (Applied parsed_batch_outcomes parsed_batch_log False),
      sub_error = None\<rparr>"

definition second_post :: submission where
  "second_post =
     \<lparr>commandId = S ''c-1'', sub_status = Failed, sub_result = None,
      sub_error = Some (S ''fetch failed'')\<rparr>"

section \<open>Properties of the cleaning functions\<close>

lemma nullish_cleanForDiff: "nullish (cleanForDiff v) = nullish v"
  by (cases v) simp_all

lemma typeof_cleanForDiff: "typeof (cleanForDiff v) = typeof v"
  by (cases v) simp_all

lemma truthy_cleanForDiff: "truthy (cleanForDiff v) = truthy v"
  by (cases v) simp_all

lemma cleanForDiff_primitive:
  "\<not> (typeof v = TObject \<and> truthy v) \<Longrightarrow> cleanForDiff v = v"
  by (cases v) simp_all

lemma cleanForDiff_JObj: "cleanForDiff (JObject c kvs) = JObj (concat (map clean_entry kvs))"
  by (simp add: clean_entry_def)

lemma concat_map_idem:
  "(\<And>x. x \<in> set xs \<Longrightarrow> concat (map f (f x)) = f x) \<Longrightarrow>
   concat (map f (concat (map f xs))) = concat (map f xs)"
  by (induction xs) simp_all

lemma strip_kubectl_annotations_idem:
  "strip_kubectl_annotations (strip_kubectl_annotations a) = strip_kubectl_annotations a"
  by (simp add: strip_kubectl_annotations_def delete_idem
      delete_twist [of "S ''deployment.kubernetes.io/revision''"])

lemma clean_entry_idem:
  assumes "cleanForDiff (cleanForDiff v) = cleanForDiff v"
  shows "concat (map clean_entry (clean_entry (k, v))) = clean_entry (k, v)"
  using assms
  by (auto simp: clean_entry_def Let_def strip_kubectl_annotations_idem nullish_cleanForDiff
      typeof_cleanForDiff truthy_cleanForDiff cleanForDiff_primitive)

lemma cleanForDiff_idem: "cleanForDiff (cleanForDiff v) = cleanForDiff v"
proof (induction v)
  case (JArr xs)
  then show ?case by simp
next
  case (JObject c kvs)
  have "concat (map clean_entry (clean_entry x)) = clean_entry x" if "x \<in> set kvs" for x
  proof -
    obtain k v where x: "x = (k, v)" by (cases x)
    have "cleanForDiff (cleanForDiff v) = cleanForDiff v"
      using JObject that x by (auto simp: snds.simps)
    then show ?thesis
      unfolding x by (rule clean_entry_idem)
  qed
  then show ?case
    by (simp only: cleanForDiff_JObj concat_map_idem)
qed simp_all

lemma delete_absent: "k \<notin> fst ` set xs \<Longrightarrow> AList.delete k xs = xs"
  by (induction xs) auto

lemma keys_delete: "fst ` set (AList.delete k xs) = fst ` set xs - {k}"
  by (induction xs) auto

lemma drop_if_empty_settled: "settled k (drop_if_empty k meta)"
  by (auto simp: settled_def drop_if_empty_def AList.delete_conv' map_of_delete
      split: option.splits)

lemma drop_if_empty_id: "settled k meta \<Longrightarrow> drop_if_empty k meta = meta"
  by (auto simp: settled_def drop_if_empty_def split: option.splits)

lemma map_of_drop_if_empty_other:
  "k \<noteq> k' \<Longrightarrow> map_of (drop_if_empty k' meta) k = map_of meta k"
  by (auto simp: drop_if_empty_def AList.delete_conv' split: option.splits)

lemma settled_drop_if_empty_other:
  "k \<noteq> k' \<Longrightarrow> settled k (drop_if_empty k' meta) = settled k meta"
  by (simp add: settled_def map_of_drop_if_empty_other)

lemma keys_drop_if_empty: "fst ` set (drop_if_empty k meta) \<subseteq> fst ` set meta"
  by (auto simp: drop_if_empty_def keys_delete split: option.splits)

lemma annotations_neq_labels: "S ''annotations'' \<noteq> S ''labels''"
  by (simp add: S_def)

lemma status_neq_metadata: "S ''status'' \<noteq> S ''metadata''"
  by (simp add: S_def)

lemma clean_meta_idem: "clean_meta (clean_meta m) = clean_meta m"
proof -
  define d where "d = AList.delete (S ''selfLink'') (AList.delete (S ''generation'')
     (AList.delete (S ''creationTimestamp'') (AList.delete (S ''uid'')
     (AList.delete (S ''resourceVersion'') (AList.delete (S ''managedFields'') m)))))"
  define r where "r = drop_if_empty (S ''labels'') (drop_if_empty (S ''annotations'') d)"
  have r: "clean_meta m = r"
    by (simp add: clean_meta_def r_def d_def)
  have "fst ` set r \<subseteq> fst ` set d"
    unfolding r_def using keys_drop_if_empty by blast
  then have absent:
    "S ''managedFields'' \<notin> fst ` set r" "S ''resourceVersion'' \<notin> fst ` set r"
    "S ''uid'' \<notin> fst ` set r" "S ''creationTimestamp'' \<notin> fst ` set r"
    "S ''generation'' \<notin> fst ` set r" "S ''selfLink'' \<notin> fst ` set r"
    unfolding d_def keys_delete by blast+
  have sa: "settled (S ''annotations'') r"
    unfolding r_def
    by (simp add: settled_drop_if_empty_other annotations_neq_labels drop_if_empty_settled)
  have sl: "settled (S ''labels'') r"
    unfolding r_def by (rule drop_if_empty_settled)
  have "clean_meta r = r"
    unfolding clean_meta_def Let_def
    by (simp only: absent [THEN delete_absent] drop_if_empty_id [OF sa] drop_if_empty_id [OF sl])
  then show ?thesis by (simp add: r)
qed

lemma delete_update_other:
  "k \<noteq> k' \<Longrightarrow> AList.delete k (AList.update k' v xs) = AList.update k' v (AList.delete k xs)"
  by (induction xs) auto

lemma cleanManifest_idem: "cleanManifest (cleanManifest obj) = cleanManifest obj"
proof -
  define c where "c = AList.delete (S ''status'') obj"
  have dc: "AList.delete (S ''status'') c = c"
    by (simp add: c_def delete_idem)
  show ?thesis
  proof (cases "map_of c (S ''metadata'')")
    case None
    then show ?thesis
      using dc by (simp add: cleanManifest_def c_def [symmetric])
  next
    case (Some m)
    show ?thesis
    proof (cases "truthy m \<and> typeof m = TObject")
      case False
      then show ?thesis
        using Some dc by (auto simp add: cleanManifest_def c_def [symmetric])
    next
      case True
      define r where "r = AList.update (S ''metadata'') (JObj (clean_meta (own_entries m))) c"
      have 1: "cleanManifest obj = r"
        using Some True by (simp add: cleanManifest_def c_def [symmetric] r_def)
      have 2: "AList.delete (S ''status'') r = r"
        by (simp add: r_def delete_update_other status_neq_metadata dc)
      have 3: "map_of r (S ''metadata'') = Some (JObj (clean_meta (own_entries m)))"
        by (simp add: r_def update_conv')
      have "cleanManifest r = r"
        by (simp add: cleanManifest_def 2 3 clean_meta_idem) (simp add: r_def)
      then show ?thesis by (simp add: 1)
    qed
  qed
qed

text \<open>
  C4. Cleaning is idempotent: cleaning a cleaned document changes nothing, for the
  cleaning done before a diff (\<open>cleanForDiff\<close>) and for the cleaning done on export
  (\<open>cleanManifest\<close>).
\<close>

theorem cleaning_idempotent:
  "cleanForDiff (cleanForDiff x) = cleanForDiff x
   \<and> cleanManifest (cleanManifest obj) = cleanManifest obj"
  by (simp add: cleanForDiff_idem cleanManifest_idem)

section \<open>Properties of the diff engine\<close>
























subsection \<open>One changed field\<close>








section \<open>What the cleaning strips\<close>


















section \<open>Cleaning at every level\<close>








section \<open>Properties of the dispatcher and of the control loop\<close>

subsection \<open>Defaulting the metadata\<close>

lemma name_neq_namespace: "S ''name'' \<noteq> S ''namespace''"
  by (simp add: S_def)

lemma property_update: "property (AList.update k v kvs) j = (if j = k then v else property kvs j)"
  by (simp add: property_def update_conv')

lemma read_prop_not_object:
  "\<not> truthy v \<or> typeof v \<noteq> TObject \<Longrightarrow> read_prop v k = JUndefined \<or> nullish v"
  by (cases v) simp_all

lemma manifest_name_no_metadata:
  assumes "\<not> truthy (property kvs (S ''metadata'')) \<or> typeof (property kvs (S ''metadata'')) \<noteq> TObject"
  shows "manifest_name (JObject c kvs) = JUndefined"
  using read_prop_not_object [OF assms] by (auto simp: manifest_name_def Let_def)

lemma default_metadata_absent:
  assumes "\<not> truthy (property kvs (S ''metadata'')) \<or> typeof (property kvs (S ''metadata'')) \<noteq> TObject"
  shows "default_metadata env ns (JObject c kvs) =
     Inr (JObject c (AList.update (S ''metadata'')
        (JObj [(S ''name'', JStr (S ''unnamed'')), (S ''namespace'', JStr ns)]) kvs))"
  using assms manifest_name_no_metadata [OF assms]
  by (simp add: default_metadata_def Let_def property_update property_def [of "[_]"]
      name_neq_namespace name_neq_namespace [symmetric])

lemma default_metadata_no_namespace:
  assumes "property kvs (S ''metadata'') = JObject c' m" and "\<not> truthy (property m (S ''namespace''))"
  shows "default_metadata env ns (JObject c kvs) =
     Inr (JObject c (AList.update (S ''metadata'')
        (JObject c' (AList.update (S ''namespace'') (JStr ns) m)) kvs))"
  using assms by (simp add: default_metadata_def Let_def)

lemma default_metadata_namespace:
  assumes "property kvs (S ''metadata'') = JObject c' m" and "truthy (property m (S ''namespace''))"
  shows "default_metadata env ns (JObject c kvs) = Inr (JObject c kvs)"
  using assms by (simp add: default_metadata_def Let_def)

lemma default_metadata_object: "\<exists>d. default_metadata env ns (JObject c kvs) = Inr d"
  by (auto simp: default_metadata_def Let_def split: jsval.splits)

lemma apply_one_object:
  assumes "yaml_load env manifestStr = Inr (JObject c kvs)"
  shows "\<exists>d. default_metadata env ns (JObject c kvs) = Inr d
     \<and> apply_one env ns dry manifestStr st =
         (case resourceLabel env (JObject c kvs) of
            Inl msg \<Rightarrow> (Some msg, st)
          | Inr label \<Rightarrow> (None, reconcile env dry label d st))"
proof -
  obtain d where d: "default_metadata env ns (JObject c kvs) = Inr d"
    using default_metadata_object by blast
  then show ?thesis
    using assms by (simp add: apply_one_def Let_def split: sum.splits)
qed

text \<open>
  The claim C7 as stated fails: a manifest whose metadata is there but has no name gets
  the namespace of the request and no name.
\<close>

theorem default_metadata_leaves_name_missing:
  "default_metadata sample_provider (S ''prod'') nameless_manifest =
      Inr (JObj [(S ''kind'', JStr (S ''ConfigMap'')),
                 (S ''metadata'', JObj [(S ''labels'', JObj [(S ''app'', JStr (S ''web''))]),
                                        (S ''namespace'', JStr (S ''prod''))])])
   \<and> manifest_name
        (JObj [(S ''kind'', JStr (S ''ConfigMap'')),
               (S ''metadata'', JObj [(S ''labels'', JObj [(S ''app'', JStr (S ''web''))]),
                                      (S ''namespace'', JStr (S ''prod''))])]) = JUndefined"
  by code_simp

text \<open>
  C7, amended. For every manifest that parses to an object, before the read, patch or
  create: when the metadata is missing or is not an object, it becomes a new metadata
  with the placeholder name \<open>unnamed\<close> and the namespace of the request; when the
  metadata is an object without a namespace, the namespace of the request is written
  into it and its name is left as it is, missing if it was missing; when it has a
  namespace, the document is left as it is. The turn of the loop then goes on with the
  defaulted document, unless the label of the manifest could not be built, which ends
  the batch before the defaulting.
\<close>

theorem default_metadata_rule:
  "(\<not> truthy (property kvs (S ''metadata'')) \<or> typeof (property kvs (S ''metadata'')) \<noteq> TObject \<longrightarrow>
      default_metadata env ns (JObj kvs) =
        Inr (JObj (AList.update (S ''metadata'')
          (JObj [(S ''name'', JStr (S ''unnamed'')), (S ''namespace'', JStr ns)]) kvs)))
   \<and> (property kvs (S ''metadata'') = JObj m \<and> \<not> truthy (property m (S ''namespace'')) \<longrightarrow>
        default_metadata env ns (JObj kvs) =
          Inr (JObj (AList.update (S ''metadata'')
            (JObj (AList.update (S ''namespace'') (JStr ns) m)) kvs))
        \<and> property (AList.update (S ''namespace'') (JStr ns) m) (S ''name'')
            = property m (S ''name''))
   \<and> (property kvs (S ''metadata'') = JObj m \<and> truthy (property m (S ''namespace'')) \<longrightarrow>
        default_metadata env ns (JObj kvs) = Inr (JObj kvs))
   \<and> (yaml_load env manifestStr = Inr (JObj kvs) \<longrightarrow>
        (\<exists>d. default_metadata env ns (JObj kvs) = Inr d
           \<and> apply_one env ns dry manifestStr st =
               (case resourceLabel env (JObj kvs) of
                  Inl msg \<Rightarrow> (Some msg, st)
                | Inr label \<Rightarrow> (None, reconcile env dry label d st))))"
  using apply_one_object [where env = env and manifestStr = manifestStr and kvs = kvs
      and ns = ns and dry = dry and st = st and c = Plain]
  by (simp add: default_metadata_absent default_metadata_no_namespace default_metadata_namespace
      property_update name_neq_namespace)

theorem default_metadata_rule_witness:
  "default_metadata sample_provider (S ''prod'') (JObj [(S ''kind'', JStr (S ''ConfigMap''))]) =
      Inr (JObj [(S ''kind'', JStr (S ''ConfigMap'')),
                 (S ''metadata'', JObj [(S ''name'', JStr (S ''unnamed'')),
                                        (S ''namespace'', JStr (S ''prod''))])])
   \<and> default_metadata sample_provider (S ''prod'') named_manifest =
      Inr (JObj [(S ''kind'', JStr (S ''ConfigMap'')),
                 (S ''metadata'', JObj [(S ''name'', JStr (S ''cfg'')),
                                        (S ''namespace'', JStr (S ''prod''))])])
   \<and> yaml_load sample_provider (S ''kind: ConfigMap'')
      = Inr (JObj [(S ''kind'', JStr (S ''ConfigMap''))])"
proof -
  have a: "\<not> truthy (property [(S ''kind'', JStr (S ''ConfigMap''))] (S ''metadata''))"
    by code_simp
  have b: "property [(S ''kind'', JStr (S ''ConfigMap'')),
              (S ''metadata'', JObj [(S ''name'', JStr (S ''cfg''))])] (S ''metadata'')
        = JObj [(S ''name'', JStr (S ''cfg''))]
      \<and> \<not> truthy (property [(S ''name'', JStr (S ''cfg''))] (S ''namespace''))"
    by code_simp
  have c: "AList.update (S ''metadata'')
        (JObj [(S ''name'', JStr (S ''unnamed'')), (S ''namespace'', JStr (S ''prod''))])
        [(S ''kind'', JStr (S ''ConfigMap''))]
      = [(S ''kind'', JStr (S ''ConfigMap'')),
         (S ''metadata'', JObj [(S ''name'', JStr (S ''unnamed'')),
                                (S ''namespace'', JStr (S ''prod''))])]"
    "AList.update (S ''metadata'')
        (JObj (AList.update (S ''namespace'') (JStr (S ''prod'')) [(S ''name'', JStr (S ''cfg''))]))
        [(S ''kind'', JStr (S ''ConfigMap'')),
         (S ''metadata'', JObj [(S ''name'', JStr (S ''cfg''))])]
      = [(S ''kind'', JStr (S ''ConfigMap'')),
         (S ''metadata'', JObj [(S ''name'', JStr (S ''cfg'')),
                                (S ''namespace'', JStr (S ''prod''))])]"
    by code_simp+
  have d: "yaml_load sample_provider (S ''kind: ConfigMap'')
      = Inr (JObj [(S ''kind'', JStr (S ''ConfigMap''))])"
    by code_simp
  show ?thesis
    using default_metadata_rule [where kvs = "[(S ''kind'', JStr (S ''ConfigMap''))]"
        and env = sample_provider and ns = "S ''prod''"]
      default_metadata_rule [where kvs = "[(S ''kind'', JStr (S ''ConfigMap'')),
              (S ''metadata'', JObj [(S ''name'', JStr (S ''cfg''))])]"
        and env = sample_provider and ns = "S ''prod''" and m = "[(S ''name'', JStr (S ''cfg''))]"]
      a b c d
    by (simp add: named_manifest_def)
qed

subsection \<open>Fetching manifests\<close>

lemma fetch_manifest_unknown_kind:
  "kind \<notin> set catalog_kinds \<Longrightarrow> fetch_manifest env s ns (kind, name) = []"
  by (simp add: fetch_manifest_def catalog_kinds_def map_of_eq_None_iff [THEN iffD2])

lemma fetch_manifest_read_fails:
  "map_of catalog kind = Some r \<Longrightarrow> read_namespaced env r s name ns = Inl err \<Longrightarrow>
   fetch_manifest env s ns (kind, name) = []"
  by (simp add: fetch_manifest_def)

lemma get_manifests_unknown_kind:
  "kind \<notin> set catalog_kinds \<Longrightarrow>
   get_manifests env s ns (xs @ (kind, name) # ys) = get_manifests env s ns (xs @ ys)"
  by (simp add: get_manifests_def fetch_manifest_unknown_kind)

lemma command_names:
  "S ''get_manifests'' \<noteq> S ''list_namespaces''"
  "S ''get_manifests'' \<noteq> S ''list_resources''"
  "S ''apply_manifest'' \<noteq> S ''list_namespaces''"
  "S ''apply_manifest'' \<noteq> S ''list_resources''"
  "S ''apply_manifest'' \<noteq> S ''get_manifests''"
  by (simp_all add: S_def)

lemma executeCommand_get_manifests:
  "cmd_type cmd = S ''get_manifests'' \<Longrightarrow>
   executeCommand env cmd s =
     (Inr (Returned (Some (Text (get_manifests env s (namespace (cmd_payload cmd))
        (resources (cmd_payload cmd))))) None), s)"
  by (simp add: executeCommand_def Let_def command_names)

lemma executeCommand_apply_manifest:
  "cmd_type cmd = S ''apply_manifest'' \<Longrightarrow>
   executeCommand env cmd s =
     apply_manifest env (namespace (cmd_payload cmd)) (manifests (cmd_payload cmd))
       (dryRun (cmd_payload cmd) = JBool True) s"
  by (simp add: executeCommand_def Let_def command_names)

text \<open>
  C10. A requested pair whose kind is none of the eleven catalog kinds gives no
  document and no error: its turn of the loop pushes nothing, as the turn of a pair
  whose read fails does, the blob is the blob of the request without the pair, and the
  command completes.
\<close>

theorem get_manifests_unknown_kind_omitted:
  assumes "kind \<notin> set catalog_kinds"
  shows "catalog_kinds =
           [S ''Deployment'', S ''Service'', S ''ConfigMap'', S ''Secret'', S ''Ingress'',
            S ''StatefulSet'', S ''DaemonSet'', S ''CronJob'', S ''Job'',
            S ''HorizontalPodAutoscaler'', S ''PersistentVolumeClaim'']
     \<and> fetch_manifest env s ns (kind, name) = []
     \<and> (map_of catalog k = Some r \<and> read_namespaced env r s n ns = Inl err \<longrightarrow>
          fetch_manifest env s ns (k, n) = [])
     \<and> get_manifests env s ns (xs @ (kind, name) # ys) = get_manifests env s ns (xs @ ys)
     \<and> (cmd_type cmd = S ''get_manifests'' \<and> resources (cmd_payload cmd) = xs @ (kind, name) # ys \<longrightarrow>
          main_iteration env (Inr \<lparr>res_status = 200, res_json = Inr (Some cmd)\<rparr>) None r2 s =
            ([Post (submit_completed cmd
                (Some (Text (get_manifests env s (namespace (cmd_payload cmd)) (xs @ ys)))))], s))"
proof -
  have 1: "catalog_kinds =
           [S ''Deployment'', S ''Service'', S ''ConfigMap'', S ''Secret'', S ''Ingress'',
            S ''StatefulSet'', S ''DaemonSet'', S ''CronJob'', S ''Job'',
            S ''HorizontalPodAutoscaler'', S ''PersistentVolumeClaim'']"
    by (simp add: catalog_kinds_def catalog_def)
  have 2: "main_iteration env (Inr \<lparr>res_status = 200, res_json = Inr (Some cmd)\<rparr>) None r2 s =
            ([Post (submit_completed cmd
                (Some (Text (get_manifests env s (namespace (cmd_payload cmd)) (xs @ ys)))))], s)"
    if "cmd_type cmd = S ''get_manifests''" "resources (cmd_payload cmd) = xs @ (kind, name) # ys"
    using that
    by (simp add: main_iteration_def poll_def ok_def executeCommand_get_manifests
        first_submission_def get_manifests_unknown_kind [OF assms])
  have 3: "map_of catalog k = Some r \<and> read_namespaced env r s n ns = Inl err \<longrightarrow>
          fetch_manifest env s ns (k, n) = []"
    by (simp add: fetch_manifest_def)
  show ?thesis
    using 1 2 3
    by (simp add: fetch_manifest_unknown_kind [OF assms] get_manifests_unknown_kind [OF assms])
qed

theorem get_manifests_unknown_kind_omitted_witness:
  "S ''Pod'' \<notin> set catalog_kinds
   \<and> get_manifests sample_provider [] (S ''prod'')
        ([(S ''ConfigMap'', S ''cfg'')] @ (S ''Pod'', S ''web-0'') # [])
      = S ''kind: ConfigMap'' @ [0x0A]
   \<and> main_iteration sample_provider
        (delivers (sample_command (S ''get_manifests'')
           ([(S ''ConfigMap'', S ''cfg'')] @ (S ''Pod'', S ''web-0'') # []) []))
        None None []
      = ([Post \<lparr>commandId = S ''c-1'', sub_status = Completed,
                 sub_result = Some (Text (S ''kind: ConfigMap'' @ [0x0A])), sub_error = None\<rparr>], [])"
proof -
  have k: "S ''Pod'' \<notin> set catalog_kinds"
    by code_simp
  have g: "get_manifests sample_provider [] (S ''prod'') ([(S ''ConfigMap'', S ''cfg'')] @ [])
      = S ''kind: ConfigMap'' @ [0x0A]"
    by code_simp
  have c: "cmd_type (sample_command (S ''get_manifests'')
           ([(S ''ConfigMap'', S ''cfg'')] @ (S ''Pod'', S ''web-0'') # []) []) = S ''get_manifests''"
    "resources (cmd_payload (sample_command (S ''get_manifests'')
           ([(S ''ConfigMap'', S ''cfg'')] @ (S ''Pod'', S ''web-0'') # []) []))
       = [(S ''ConfigMap'', S ''cfg'')] @ (S ''Pod'', S ''web-0'') # []"
    "namespace (cmd_payload (sample_command (S ''get_manifests'')
           ([(S ''ConfigMap'', S ''cfg'')] @ (S ''Pod'', S ''web-0'') # []) [])) = S ''prod''"
    "cmd_id (sample_command (S ''get_manifests'')
           ([(S ''ConfigMap'', S ''cfg'')] @ (S ''Pod'', S ''web-0'') # []) []) = S ''c-1''"
    by (simp_all add: sample_command_def)
  show ?thesis
    using get_manifests_unknown_kind_omitted [OF k, where env = sample_provider and s = "[]"
        and ns = "S ''prod''" and name = "S ''web-0''" and xs = "[(S ''ConfigMap'', S ''cfg'')]"
        and ys = "[]" and ?r2.0 = None
        and cmd = "sample_command (S ''get_manifests'')
           ([(S ''ConfigMap'', S ''cfg'')] @ (S ''Pod'', S ''web-0'') # []) []"]
      k g c
    by (simp add: delivers_def submit_completed_def)
qed

subsection \<open>Applying a batch\<close>

lemma apply_one_unparsable:
  "yaml_load env m = Inl msg \<Longrightarrow> apply_one env ns dry m st = (Some msg, st)"
  by (simp add: apply_one_def)

lemma apply_loop_unparsable:
  "m \<in> set ms \<Longrightarrow> yaml_load env m = Inl msg \<Longrightarrow>
   \<exists>e st'. apply_loop env ns dry ms st = (Some e, st')"
proof (induction ms arbitrary: st)
  case Nil
  then show ?case by simp
next
  case (Cons x xs)
  obtain r st1 where one: "apply_one env ns dry x st = (r, st1)"
    by (cases "apply_one env ns dry x st")
  show ?case
  proof (cases r)
    case (Some e)
    then show ?thesis using one by simp
  next
    case None
    then have "x \<noteq> m"
      using one Cons.prems(2) by (auto simp: apply_one_unparsable)
    then have "m \<in> set xs" using Cons.prems(1) by simp
    then show ?thesis
      using Cons.IH [OF _ Cons.prems(2)] one None by simp
  qed
qed

lemma apply_manifest_unparsable:
  assumes "m \<in> set ms" and "yaml_load env m = Inl msg"
  shows "\<exists>e s'. apply_manifest env ns ms dry s = (Inl e, s')"
proof -
  obtain e st' where "apply_loop env ns dry ms
     \<lparr>cluster = s, results = [],
       logs = [(if dry then S ''Dry run'' else S ''Deploying'') @ S '': '' @ show_nat (length ms)
                 @ S '' resource(s) to namespace '' @ dquote @ ns @ dquote, []]\<rparr> = (Some e, st')"
    using apply_loop_unparsable [OF assms] by blast
  then show ?thesis
    by (simp add: apply_manifest_def Let_def)
qed

text \<open>
  C1. A manifest text that does not parse makes \<open>yaml.load\<close> throw before the \<open>try\<close>
  block of its turn: the exception leaves the loop and the command, the batch has no
  result with per-resource outcomes, and the control loop reports the whole command as
  failed with the message of the parser.
\<close>

theorem unparsable_manifest_aborts_batch:
  assumes "cmd_type cmd = S ''apply_manifest''"
    and "m \<in> set (manifests (cmd_payload cmd))"
    and "yaml_load env m = Inl msg"
  shows "\<exists>e s'. executeCommand env cmd s = (Inl e, s')
     \<and> main_iteration env (Inr \<lparr>res_status = 200, res_json = Inr (Some cmd)\<rparr>) None r2 s
         = ([Post (submit_failed cmd e)], s')"
proof -
  obtain e s' where e: "executeCommand env cmd s = (Inl e, s')"
    using apply_manifest_unparsable [OF assms(2,3)] executeCommand_apply_manifest [OF assms(1)]
    by metis
  then have "main_iteration env (Inr \<lparr>res_status = 200, res_json = Inr (Some cmd)\<rparr>) None r2 s
         = ([Post (submit_failed cmd e)], s')"
    by (simp add: main_iteration_def poll_def ok_def)
  then show ?thesis using e by blast
qed

theorem unparsable_manifest_aborts_batch_witness:
  "cmd_type (sample_command (S ''apply_manifest'') [] batch) = S ''apply_manifest''
   \<and> S ''{kind: ConfigMap'' \<in> set (manifests (cmd_payload (sample_command (S ''apply_manifest'') [] batch)))
   \<and> yaml_load sample_provider (S ''{kind: ConfigMap'')
       = Inl (S ''unexpected end of the stream within a flow collection'')
   \<and> (\<exists>e s'. executeCommand sample_provider (sample_command (S ''apply_manifest'') [] batch) []
          = (Inl e, s')
        \<and> main_iteration sample_provider
             (Inr \<lparr>res_status = 200,
                   res_json = Inr (Some (sample_command (S ''apply_manifest'') [] batch))\<rparr>)
             None None []
           = ([Post (submit_failed (sample_command (S ''apply_manifest'') [] batch) e)], s'))
   \<and> executeCommand sample_provider (sample_command (S ''apply_manifest'') [] batch) []
       = (Inl (S ''unexpected end of the stream within a flow collection''),
          [JObj [(S ''kind'', JStr (S ''ConfigMap'')),
                 (S ''metadata'', JObj [(S ''name'', JStr (S ''cfg'')),
                                        (S ''namespace'', JStr (S ''prod''))])]])"
proof -
  have 1: "cmd_type (sample_command (S ''apply_manifest'') [] batch) = S ''apply_manifest''"
    by (simp add: sample_command_def)
  have 2: "S ''{kind: ConfigMap''
      \<in> set (manifests (cmd_payload (sample_command (S ''apply_manifest'') [] batch)))"
    by (simp add: sample_command_def batch_def)
  have 3: "yaml_load sample_provider (S ''{kind: ConfigMap'')
      = Inl (S ''unexpected end of the stream within a flow collection'')"
    by code_simp
  have 4: "executeCommand sample_provider (sample_command (S ''apply_manifest'') [] batch) []
       = (Inl (S ''unexpected end of the stream within a flow collection''),
          [JObj [(S ''kind'', JStr (S ''ConfigMap'')),
                 (S ''metadata'', JObj [(S ''name'', JStr (S ''cfg'')),
                                        (S ''namespace'', JStr (S ''prod''))])]])"
    by code_simp
  show ?thesis
    using unparsable_manifest_aborts_batch [OF 1 2 3, of "[]" None] 1 2 3 4 by blast
qed

subsection \<open>The outcomes of a batch\<close>

lemma reconcile_outcome:
  "\<exists>r. results (reconcile env dry label d st) = results st @ [r]
     \<and> resource r = label
     \<and> (case error r of
          None \<Rightarrow>
            success r \<and> log r \<in> set (map (\<lambda>a. Some (label @ a)) actions) \<and> diff r \<noteq> None
        | Some msg \<Rightarrow> \<not> success r \<and> log r = Some (label @ S '' failed: '' @ msg) \<and> diff r = None)
     \<and> error r =
         (if truthy (case client_read env (cluster st) d of Some live \<Rightarrow> live | None \<Rightarrow> JNull)
          then (case client_patch env (cluster st) d dry of Inl msg \<Rightarrow> Some msg | Inr s' \<Rightarrow> None)
          else (case client_create env (cluster st) d dry of Inl msg \<Rightarrow> Some msg | Inr s' \<Rightarrow> None))"
  by (simp add: reconcile_def record_failure_def record_success_def actions_def Let_def
      split: sum.splits option.splits)

lemma apply_one_processable:
  assumes "processable env m"
  shows "\<exists>r st'. apply_one env ns dry m st = (None, st')
     \<and> results st' = results st @ [r]
     \<and> outcome_of env m r
     \<and> error r = item_error env ns dry m (cluster st)"
proof -
  from assms obtain doc label where doc: "yaml_load env m = Inr doc" "\<not> nullish doc"
    and label: "resourceLabel env doc = Inr label"
    by (auto simp: processable_def split: sum.splits)
  show ?thesis
  proof (cases "default_metadata env ns doc")
    case (Inl msg)
    then show ?thesis
      using doc label
      by (simp add: apply_one_def outcome_of_def item_error_def record_failure_def)
  next
    case (Inr d)
    obtain r where r: "results (reconcile env dry label d st) = results st @ [r]"
      "resource r = label"
      "case error r of
          None \<Rightarrow>
            success r \<and> log r \<in> set (map (\<lambda>a. Some (label @ a)) actions) \<and> diff r \<noteq> None
        | Some msg \<Rightarrow> \<not> success r \<and> log r = Some (label @ S '' failed: '' @ msg) \<and> diff r = None"
      "error r =
         (if truthy (case client_read env (cluster st) d of Some live \<Rightarrow> live | None \<Rightarrow> JNull)
          then (case client_patch env (cluster st) d dry of Inl msg \<Rightarrow> Some msg | Inr s' \<Rightarrow> None)
          else (case client_create env (cluster st) d dry of Inl msg \<Rightarrow> Some msg | Inr s' \<Rightarrow> None))"
      using reconcile_outcome [of env dry label d st] by blast
    have "apply_one env ns dry m st = (None, reconcile env dry label d st)"
      using doc label Inr by (simp add: apply_one_def)
    moreover have "outcome_of env m r"
      using doc label r(2,3) by (simp add: outcome_of_def)
    moreover have "error r = item_error env ns dry m (cluster st)"
      using doc Inr r(4) by (simp add: item_error_def)
    ultimately show ?thesis
      using r(1) by blast
  qed
qed

lemma apply_loop_processable:
  assumes "\<And>m. m \<in> set ms \<Longrightarrow> processable env m"
  shows "\<exists>rs st'. apply_loop env ns dry ms st = (None, st')
     \<and> results st' = results st @ rs \<and> list_all2 (outcome_of env) ms rs"
  using assms
proof (induction ms arbitrary: st)
  case Nil
  then show ?case by simp
next
  case (Cons x xs)
  obtain r st1 where one: "apply_one env ns dry x st = (None, st1)"
    "results st1 = results st @ [r]" "outcome_of env x r"
    using apply_one_processable [of env x ns dry st] Cons.prems by auto
  obtain rs st' where rest: "apply_loop env ns dry xs st1 = (None, st')"
    "results st' = results st1 @ rs" "list_all2 (outcome_of env) xs rs"
    using Cons.IH [of st1] Cons.prems by auto
  have "apply_loop env ns dry (x # xs) st = (None, st')"
    using one(1) rest(1) by simp
  moreover have "results st' = results st @ (r # rs)"
    using one(2) rest(2) by simp
  moreover have "list_all2 (outcome_of env) (x # xs) (r # rs)"
    using one(3) rest(3) by simp
  ultimately show ?case by blast
qed

lemma apply_manifest_processable:
  assumes "\<And>m. m \<in> set ms \<Longrightarrow> processable env m"
  shows "\<exists>rs lines s'.
     apply_manifest env ns ms dry s = (Inr (Returned (Some (Applied rs lines dry)) None), s')
     \<and> list_all2 (outcome_of env) ms rs"
proof -
  obtain rs st' where "apply_loop env ns dry ms
     \<lparr>cluster = s, results = [],
       logs = [(if dry then S ''Dry run'' else S ''Deploying'') @ S '': '' @ show_nat (length ms)
                 @ S '' resource(s) to namespace '' @ dquote @ ns @ dquote, []]\<rparr> = (None, st')"
    "results st' = rs" "list_all2 (outcome_of env) ms rs"
    using apply_loop_processable [OF assms, of ms] by fastforce
  then show ?thesis
    by (simp add: apply_manifest_def Let_def)
qed

subsection \<open>One turn of the control loop\<close>

lemma posts_main_iteration:
  assumes "poll fetched = Inr (Some cmd)"
  shows "posts (fst (main_iteration env fetched r1 r2 s)) =
     (case fst (executeCommand env cmd s) of
        Inl e \<Rightarrow> [submit_failed cmd e]
      | Inr ret \<Rightarrow>
          first_submission cmd ret # (case r1 of None \<Rightarrow> [] | Some msg \<Rightarrow> [submit_failed cmd msg]))"
  using assms
  by (cases "executeCommand env cmd s")
     (simp add: main_iteration_def split: sum.splits option.splits)

lemma first_submission_explicit:
  "first_submission cmd ret =
     (if ret_error ret \<noteq> None \<and> ret_error ret \<noteq> Some []
      then \<lparr>commandId = cmd_id cmd, sub_status = Failed, sub_result = None,
            sub_error = ret_error ret\<rparr>
      else \<lparr>commandId = cmd_id cmd, sub_status = Completed, sub_result = ret_result ret,
            sub_error = None\<rparr>)"
  by (auto simp: first_submission_def submit_failed_def submit_completed_def split: option.splits)

lemma main_iteration_http_error:
  "\<not> ok res \<Longrightarrow> main_iteration env (Inr res) r1 r2 s = ([], s)"
  by (simp add: main_iteration_def poll_def)

lemma main_iteration_fetch_rejects:
  "main_iteration env (Inl msg) r1 r2 s = ([Delay 3000], s)"
  by (simp add: main_iteration_def poll_def)

lemma main_iteration_no_command:
  "ok res \<Longrightarrow> res_json res = Inr None \<Longrightarrow> main_iteration env (Inr res) r1 r2 s = ([], s)"
  by (simp add: main_iteration_def poll_def)

lemma main_iteration_bad_body:
  "ok res \<Longrightarrow> res_json res = Inl msg \<Longrightarrow> main_iteration env (Inr res) r1 r2 s = ([Delay 3000], s)"
  by (simp add: main_iteration_def poll_def)

text \<open>
  C2. For every command the loop receives, the results it posts are: the failed result
  with the message, when \<open>executeCommand\<close> throws; otherwise the result of the command,
  failed with its error when it hands back one and completed with its result when not,
  and after it, when the transport rejects that post, a second result for the same
  command, failed with the message of the transport: the post stands inside the \<open>try\<close>
  block whose \<open>catch\<close> posts. So a command has one result when its post goes through
  and two when the post of what it returned is rejected. The failures of single
  manifests stay inside the payload: an \<open>apply_manifest\<close> batch whose manifests are all
  processable is posted as one completed result that holds one outcome per manifest,
  in the order of the batch, each the outcome of its manifest; and the outcome that a
  manifest adds is failed, with the message, exactly when its \<open>try\<close> block throws.
\<close>

theorem results_per_command:
  assumes "poll fetched = Inr (Some cmd)"
  shows "posts (fst (main_iteration env fetched r1 r2 s)) =
           (case fst (executeCommand env cmd s) of
              Inl e \<Rightarrow>
                [\<lparr>commandId = cmd_id cmd, sub_status = Failed, sub_result = None,
                  sub_error = Some e\<rparr>]
            | Inr ret \<Rightarrow>
                (if ret_error ret \<noteq> None \<and> ret_error ret \<noteq> Some []
                 then \<lparr>commandId = cmd_id cmd, sub_status = Failed, sub_result = None,
                       sub_error = ret_error ret\<rparr>
                 else \<lparr>commandId = cmd_id cmd, sub_status = Completed,
                       sub_result = ret_result ret, sub_error = None\<rparr>)
                # (case r1 of
                     None \<Rightarrow> []
                   | Some msg \<Rightarrow>
                       [\<lparr>commandId = cmd_id cmd, sub_status = Failed, sub_result = None,
                         sub_error = Some msg\<rparr>]))
     \<and> (r1 = None \<longrightarrow> length (posts (fst (main_iteration env fetched r1 r2 s))) = 1)
     \<and> (r1 \<noteq> None \<longrightarrow>
          length (posts (fst (main_iteration env fetched r1 r2 s))) =
            (case fst (executeCommand env cmd s) of Inl e \<Rightarrow> 1 | Inr ret \<Rightarrow> 2))
     \<and> (cmd_type cmd = S ''apply_manifest''
          \<and> (\<forall>m \<in> set (manifests (cmd_payload cmd)). processable env m) \<longrightarrow>
          (\<exists>rs lines s'.
             executeCommand env cmd s =
               (Inr (Returned (Some (Applied rs lines (dryRun (cmd_payload cmd) = JBool True)))
                      None), s')
             \<and> list_all2 (outcome_of env) (manifests (cmd_payload cmd)) rs
             \<and> main_iteration env fetched None r2 s =
                 ([Post \<lparr>commandId = cmd_id cmd, sub_status = Completed,
                          sub_result = Some (Applied rs lines
                                               (dryRun (cmd_payload cmd) = JBool True)),
                          sub_error = None\<rparr>], s')))
     \<and> (processable env m \<longrightarrow>
          (\<exists>r st'. apply_one env ns dry m st = (None, st')
             \<and> results st' = results st @ [r]
             \<and> outcome_of env m r
             \<and> error r = item_error env ns dry m (cluster st)))"
proof -
  note p = posts_main_iteration [OF assms, of env r1 r2 s]
  have 0: "posts (fst (main_iteration env fetched r1 r2 s)) =
           (case fst (executeCommand env cmd s) of
              Inl e \<Rightarrow>
                [\<lparr>commandId = cmd_id cmd, sub_status = Failed, sub_result = None,
                  sub_error = Some e\<rparr>]
            | Inr ret \<Rightarrow>
                (if ret_error ret \<noteq> None \<and> ret_error ret \<noteq> Some []
                 then \<lparr>commandId = cmd_id cmd, sub_status = Failed, sub_result = None,
                       sub_error = ret_error ret\<rparr>
                 else \<lparr>commandId = cmd_id cmd, sub_status = Completed,
                       sub_result = ret_result ret, sub_error = None\<rparr>)
                # (case r1 of
                     None \<Rightarrow> []
                   | Some msg \<Rightarrow>
                       [\<lparr>commandId = cmd_id cmd, sub_status = Failed, sub_result = None,
                         sub_error = Some msg\<rparr>]))"
    unfolding p
    by (simp add: first_submission_explicit submit_failed_def split: sum.splits option.splits)
  have 1: "r1 = None \<longrightarrow> length (posts (fst (main_iteration env fetched r1 r2 s))) = 1"
    unfolding p by (simp split: sum.splits)
  have 2: "r1 \<noteq> None \<longrightarrow>
          length (posts (fst (main_iteration env fetched r1 r2 s))) =
            (case fst (executeCommand env cmd s) of Inl e \<Rightarrow> 1 | Inr ret \<Rightarrow> 2)"
    unfolding p by (auto split: sum.splits option.splits)
  have 3: "\<exists>rs lines s'.
             executeCommand env cmd s =
               (Inr (Returned (Some (Applied rs lines (dryRun (cmd_payload cmd) = JBool True)))
                      None), s')
             \<and> list_all2 (outcome_of env) (manifests (cmd_payload cmd)) rs
             \<and> main_iteration env fetched None r2 s =
                 ([Post \<lparr>commandId = cmd_id cmd, sub_status = Completed,
                          sub_result = Some (Applied rs lines
                                               (dryRun (cmd_payload cmd) = JBool True)),
                          sub_error = None\<rparr>], s')"
    if t: "cmd_type cmd = S ''apply_manifest''"
      and a: "\<forall>m \<in> set (manifests (cmd_payload cmd)). processable env m"
  proof -
    obtain rs lines s' where e: "executeCommand env cmd s =
        (Inr (Returned (Some (Applied rs lines (dryRun (cmd_payload cmd) = JBool True))) None), s')"
      and l: "list_all2 (outcome_of env) (manifests (cmd_payload cmd)) rs"
      using apply_manifest_processable [of "manifests (cmd_payload cmd)" env
          "namespace (cmd_payload cmd)" "dryRun (cmd_payload cmd) = JBool True" s]
        a executeCommand_apply_manifest [OF t, of env s]
      by metis
    have "main_iteration env fetched None r2 s =
        ([Post \<lparr>commandId = cmd_id cmd, sub_status = Completed,
                 sub_result = Some (Applied rs lines (dryRun (cmd_payload cmd) = JBool True)),
                 sub_error = None\<rparr>], s')"
      using assms e by (simp add: main_iteration_def first_submission_explicit)
    then show ?thesis using e l by blast
  qed
  have 4: "processable env m \<longrightarrow>
          (\<exists>r st'. apply_one env ns dry m st = (None, st')
             \<and> results st' = results st @ [r]
             \<and> outcome_of env m r
             \<and> error r = item_error env ns dry m (cluster st))"
    using apply_one_processable [of env m ns dry st] by blast
  show ?thesis
    using 0 1 2 3 4 by blast
qed

theorem results_per_command_witness:
  "poll (delivers (sample_command (S ''apply_manifest'') [] parsed_batch))
     = Inr (Some (sample_command (S ''apply_manifest'') [] parsed_batch))
   \<and> list_all (processable strict_provider) parsed_batch
   \<and> fst (executeCommand strict_provider (sample_command (S ''apply_manifest'') [] parsed_batch) [])
       = Inr (Returned (Some (Applied parsed_batch_outcomes parsed_batch_log False)) None)
   \<and> posts (fst (main_iteration strict_provider
        (delivers (sample_command (S ''apply_manifest'') [] parsed_batch)) None None []))
       = [parsed_batch_post]
   \<and> posts (fst (main_iteration strict_provider
        (delivers (sample_command (S ''apply_manifest'') [] parsed_batch))
        (Some (S ''fetch failed'')) None []))
       = [parsed_batch_post, second_post]"
proof -
  let ?cmd = "sample_command (S ''apply_manifest'') [] parsed_batch"
  have 1: "poll (delivers ?cmd) = Inr (Some ?cmd)"
    by (simp add: poll_def delivers_def ok_def)
  have 2: "list_all (processable strict_provider) parsed_batch"
    by code_simp
  have 3: "fst (executeCommand strict_provider ?cmd [])
       = Inr (Returned (Some (Applied parsed_batch_outcomes parsed_batch_log False)) None)"
    by code_simp
  have 4: "posts (fst (main_iteration strict_provider (delivers ?cmd) None None []))
       = [parsed_batch_post]"
    using results_per_command [OF 1, where env = strict_provider and ?r1.0 = None
        and ?r2.0 = None and s = "[]", THEN conjunct1] 3
    by (simp add: parsed_batch_post_def sample_command_def)
  have 5: "posts (fst (main_iteration strict_provider (delivers ?cmd)
        (Some (S ''fetch failed'')) None []))
       = [parsed_batch_post, second_post]"
    using results_per_command [OF 1, where env = strict_provider
        and ?r1.0 = "Some (S ''fetch failed'')" and ?r2.0 = None and s = "[]", THEN conjunct1] 3
    by (simp add: parsed_batch_post_def second_post_def sample_command_def)
  show ?thesis
    using 1 2 3 4 5 by blast
qed

text \<open>
  C8. A poll that the transport rejects, or whose body cannot be read, is followed by
  the fixed wait of three seconds, and a clean "no command" answer by none. A poll that
  is answered with an HTTP error status is followed by no wait either: \<open>poll\<close> hands
  back \<open>null\<close> for it, as for "no command", and the loop polls again at once.
\<close>

theorem poll_outcomes:
  "main_iteration env (Inl msg) r1 r2 s = ([Delay 3000], s)
   \<and> (ok res \<and> res_json res = Inl msg \<longrightarrow> main_iteration env (Inr res) r1 r2 s = ([Delay 3000], s))
   \<and> (ok res \<and> res_json res = Inr None \<longrightarrow> main_iteration env (Inr res) r1 r2 s = ([], s))
   \<and> (\<not> ok res \<longrightarrow> main_iteration env (Inr res) r1 r2 s = ([], s))"
  by (simp add: main_iteration_fetch_rejects main_iteration_bad_body main_iteration_no_command
      main_iteration_http_error)

theorem poll_outcomes_witness:
  "\<not> ok \<lparr>res_status = 500, res_json = Inl (S ''Unexpected token'')\<rparr>
   \<and> main_iteration sample_provider
        (Inr \<lparr>res_status = 500, res_json = Inl (S ''Unexpected token'')\<rparr>) None None [] = ([], [])
   \<and> ok \<lparr>res_status = 200, res_json = Inr None\<rparr>
   \<and> main_iteration sample_provider
        (Inr \<lparr>res_status = 200, res_json = Inr None\<rparr>) None None [] = ([], [])
   \<and> main_iteration sample_provider (Inl (S ''fetch failed'')) None None [] = ([Delay 3000], [])"
proof -
  have 1: "\<not> ok \<lparr>res_status = 500, res_json = Inl (S ''Unexpected token'')\<rparr>"
    "ok \<lparr>res_status = 200, res_json = Inr None\<rparr>"
    by (simp_all add: ok_def)
  show ?thesis
    using poll_outcomes [of sample_provider "S ''fetch failed''" None None "[]"
        "\<lparr>res_status = 500, res_json = Inl (S ''Unexpected token'')\<rparr>"]
      poll_outcomes [of sample_provider "S ''fetch failed''" None None "[]"
        "\<lparr>res_status = 200, res_json = Inr None\<rparr>"]
      1
    by simp
qed
end
